theory Spec2Isabelle
  imports Main "HOL-Library.AList" "HOL-Library.Multiset"
begin

section \<open>The host manager of the NIC configuration operator (pkg/host/host.go)\<close>

text \<open>
  The four operations of \<open>hostManager\<close> are embedded as functions over an explicit host.
  The two collaborators injected into the manager, \<open>HostUtils\<close> and \<open>configValidation\<close>,
  are Go interfaces whose implementations live outside host.go: they are parameters of
  the model, records of functions that read and may change a host state of an arbitrary
  type \<open>'w\<close>. Every call the manager makes on \<open>hostUtils\<close> is appended to a log of calls,
  so that "which host calls were issued, in which order" is a property of the result.
  A run-time panic of Go (an index out of range) is a result of its own.
\<close>

subsection \<open>Data\<close>

text \<open>A Go \<open>error\<close> value: the spec error built by \<open>types.IncorrectSpecError\<close>, or any
  other error a collaborator hands back.\<close>

datatype error = IncorrectSpecError string | HostError string

text \<open>What a call of an operation does: it panics, or it returns its tuple of results.\<close>

datatype 'a outcome = Panic | Return 'a

text \<open>Go's index expression \<open>xs[i]\<close> on a slice: the element, or a run-time panic when
  \<open>i\<close> is out of range. Every index expression of host.go goes through it, so that a
  guard on the length is what keeps an operation from panicking.\<close>

definition sliceIndex :: "'a list \<Rightarrow> nat \<Rightarrow> 'a outcome" where
  "sliceIndex xs i = (if i < length xs then Return (xs ! i) else Panic)"

text \<open>A Go \<open>map[string]string\<close> is an association list without duplicate keys; reading
  a key is \<open>map_of\<close>, the store \<open>m[k] = v\<close> is \<open>AList.update\<close>. The order in which
  \<open>range\<close> visits a map is not fixed by the language: it is a parameter \<open>rng\<close> of the
  operations that iterate over one.\<close>

type_synonym nvparams = "(string \<times> string) list"

text \<open>A PCI device as \<open>GetPCIDevices\<close> lists it, with the fields \<open>DiscoverNicDevices\<close>
  reads: \<open>device.Address\<close>, \<open>device.Vendor.ID\<close>, \<open>device.Class.ID\<close>,
  \<open>device.Product.ID\<close> and \<open>device.Product.Name\<close>. The nested vendor, class and product
  records are taken as present.\<close>

record PCIDevice =
  Address :: string
  VendorID :: string
  ClassID :: string
  ProductID :: string
  ProductName :: string

record NicDevicePortSpec =
  PCI :: string
  NetworkInterface :: string
  RdmaInterface :: string

record NicDeviceStatus =
  Node :: string
  Type :: string
  SerialNumber :: string
  PartNumber :: string
  PSID :: string
  FirmwareVersion :: string
  Ports :: "NicDevicePortSpec list"

text \<open>Of a device's spec host.go reads only \<open>Spec.Configuration.ResetToDefault\<close>; the
  rest of the spec (the configuration template) is read by \<open>configValidation\<close> alone and
  stays abstract, of type \<open>'t\<close>.\<close>

record 't NicDevice =
  Name :: string
  ResetToDefault :: bool
  Template :: 't
  Status :: NicDeviceStatus

record NvConfigQuery =
  CurrentConfig :: nvparams
  NextBootConfig :: nvparams
  DefaultConfig :: nvparams

text \<open>The constants of package \<open>consts\<close> that host.go names. Their values are declared
  outside host.go, so they are parameters.\<close>

record constants =
  MellanoxVendor :: string
  NetClass :: int
  AdvancedPCISettingsParam :: string
  NvParamTrue :: string

subsection \<open>The collaborators\<close>

text \<open>A call on \<open>hostUtils\<close>, with its arguments.\<close>

datatype call =
    CGetPCIDevices
  | CIsSriovVF string
  | CGetPartAndSerialNumber string
  | CGetFirmwareVersionAndPSID string
  | CGetInterfaceName string
  | CGetRDMADeviceName string
  | CQueryNvConfig string
  | CSetNvConfigParameter string string string
  | CResetNvConfig string
  | CResetNicFirmware string
  | CSetMaxReadRequestSize string int
  | CSetTrustAndPFC string string string

text \<open>Each method takes the host state and its arguments and gives its result and the
  host state after the call. A method whose Go result is \<open>(value, error)\<close> and whose
  value host.go never reads when the error is set returns a sum; a method that returns only
  an error returns \<open>error option\<close>, \<open>None\<close> for \<open>nil\<close>.\<close>

record 'w HostUtils =
  GetPCIDevices :: "'w \<Rightarrow> (error + PCIDevice list) \<times> 'w"
  IsSriovVF :: "'w \<Rightarrow> string \<Rightarrow> bool \<times> 'w"
  GetPartAndSerialNumber :: "'w \<Rightarrow> string \<Rightarrow> (error + string \<times> string) \<times> 'w"
  GetFirmwareVersionAndPSID :: "'w \<Rightarrow> string \<Rightarrow> (error + string \<times> string) \<times> 'w"
  GetInterfaceName :: "'w \<Rightarrow> string \<Rightarrow> string \<times> 'w"
  GetRDMADeviceName :: "'w \<Rightarrow> string \<Rightarrow> string \<times> 'w"
  QueryNvConfig :: "'w \<Rightarrow> string \<Rightarrow> (error + NvConfigQuery) \<times> 'w"
  SetNvConfigParameter :: "'w \<Rightarrow> string \<Rightarrow> string \<Rightarrow> string \<Rightarrow> error option \<times> 'w"
  ResetNvConfig :: "'w \<Rightarrow> string \<Rightarrow> error option \<times> 'w"
  ResetNicFirmware :: "'w \<Rightarrow> string \<Rightarrow> error option \<times> 'w"
  SetMaxReadRequestSize :: "'w \<Rightarrow> string \<Rightarrow> int \<Rightarrow> error option \<times> 'w"
  SetTrustAndPFC :: "'w \<Rightarrow> string \<Rightarrow> string \<Rightarrow> string \<Rightarrow> error option \<times> 'w"

text \<open>\<open>RuntimeConfigApplied\<close> returns its boolean and its error side by side, because
  \<open>ApplyDeviceRuntimeSpec\<close> reads the boolean whatever the error is;
  \<open>ValidateResetToDefault\<close> returns the triple that \<open>ValidateDeviceNvSpec\<close> passes on.\<close>

record ('w, 't) configValidation =
  ValidateResetToDefault :: "'w \<Rightarrow> NvConfigQuery \<Rightarrow> (bool \<times> bool \<times> error option) \<times> 'w"
  ConstructNvParamMapFromTemplate ::
    "'w \<Rightarrow> 't NicDevice \<Rightarrow> nvparams \<Rightarrow> (error + nvparams) \<times> 'w"
  AdvancedPCISettingsEnabled :: "'w \<Rightarrow> nvparams \<Rightarrow> bool \<times> 'w"
  RuntimeConfigApplied :: "'w \<Rightarrow> 't NicDevice \<Rightarrow> (bool \<times> error option) \<times> 'w"
  CalculateDesiredRuntimeConfig :: "'w \<Rightarrow> 't NicDevice \<Rightarrow> (int \<times> string \<times> string) \<times> 'w"

record ('w, 't) hostManager =
  nodeName :: string
  hostUtils :: "'w HostUtils"
  configValidation :: "('w, 't) configValidation"

text \<open>The state an operation runs in: the host, and the calls made on \<open>hostUtils\<close> so far.\<close>

type_synonym 'w hoststate = "'w \<times> call list"

definition logged :: "call \<Rightarrow> ('w \<Rightarrow> 'r \<times> 'w) \<Rightarrow> 'w hoststate \<Rightarrow> 'r \<times> 'w hoststate" where
  "logged c f s = (case f (fst s) of (r, w') \<Rightarrow> (r, (w', snd s @ [c])))"

definition unlogged :: "('w \<Rightarrow> 'r \<times> 'w) \<Rightarrow> 'w hoststate \<Rightarrow> 'r \<times> 'w hoststate" where
  "unlogged f s = (case f (fst s) of (r, w') \<Rightarrow> (r, (w', snd s)))"

text \<open>Go's two-result map read \<open>v, found := m[k]\<close>: a missing key gives the zero string.\<close>

definition lookup :: "nvparams \<Rightarrow> string \<Rightarrow> string \<times> bool" where
  "lookup m k = (case map_of m k of None \<Rightarrow> ('''', False) | Some v \<Rightarrow> (v, True))"

definition unsupportedParameter :: "string \<Rightarrow> string \<Rightarrow> error" where
  "unsupportedParameter parameter deviceName =
     IncorrectSpecError (''Parameter '' @ parameter @ '' unsupported for device '' @ deviceName)"

subsection \<open>ValidateDeviceNvSpec\<close>

text \<open>The loop of lines 166 to 183 over the desired parameters, in the order \<open>range\<close>
  visits them, with the two flags as accumulators.\<close>

fun validateLoop ::
  "bool \<Rightarrow> string \<Rightarrow> NvConfigQuery \<Rightarrow> nvparams \<Rightarrow> bool \<Rightarrow> bool \<Rightarrow> bool \<times> bool \<times> error option"
where
  "validateLoop advancedPciSettingsEnabled deviceName nvConfig [] configUpdateNeeded rebootNeeded =
     (configUpdateNeeded, rebootNeeded, None)"
| "validateLoop advancedPciSettingsEnabled deviceName nvConfig ((parameter, desiredValue) # rest)
       configUpdateNeeded rebootNeeded =
     (case lookup (CurrentConfig nvConfig) parameter of (currentValue, foundInCurrent) \<Rightarrow>
      case lookup (NextBootConfig nvConfig) parameter of (nextValue, foundInNextBoot) \<Rightarrow>
        if advancedPciSettingsEnabled \<and> \<not> foundInCurrent
        then (False, False, Some (unsupportedParameter parameter deviceName))
        else if foundInNextBoot \<and> nextValue = desiredValue
        then (if \<not> foundInCurrent \<or> currentValue \<noteq> desiredValue
              then validateLoop advancedPciSettingsEnabled deviceName nvConfig rest
                     configUpdateNeeded True
              else validateLoop advancedPciSettingsEnabled deviceName nvConfig rest
                     configUpdateNeeded rebootNeeded)
        else validateLoop advancedPciSettingsEnabled deviceName nvConfig rest True True)"

definition ValidateDeviceNvSpec ::
  "(nvparams \<Rightarrow> nvparams) \<Rightarrow> ('w, 't) hostManager \<Rightarrow> 't NicDevice \<Rightarrow> 'w hoststate
     \<Rightarrow> (bool \<times> bool \<times> error option) outcome \<times> 'w hoststate"
where
  "ValidateDeviceNvSpec rng h device s =
     (case sliceIndex (Ports (Status device)) 0 of
        Panic \<Rightarrow> (Panic, s)
      | Return port0 \<Rightarrow>
        (case logged (CQueryNvConfig (PCI port0))
                (\<lambda>w. QueryNvConfig (hostUtils h) w (PCI port0)) s of
           (Inl err, s1) \<Rightarrow> (Return (False, False, Some err), s1)
         | (Inr nvConfig, s1) \<Rightarrow>
           if ResetToDefault device
           then (case unlogged (\<lambda>w. ValidateResetToDefault (configValidation h) w nvConfig) s1 of
                   (res, s2) \<Rightarrow> (Return res, s2))
           else
             (case unlogged (\<lambda>w. ConstructNvParamMapFromTemplate (configValidation h) w device
                                   (DefaultConfig nvConfig)) s1 of
                (Inl err, s2) \<Rightarrow> (Return (False, False, Some err), s2)
              | (Inr desiredConfig, s2) \<Rightarrow>
                (case unlogged (\<lambda>w. AdvancedPCISettingsEnabled (configValidation h) w
                                      (CurrentConfig nvConfig)) s2 of
                   (advancedPciSettingsEnabled, s3) \<Rightarrow>
                     (Return (validateLoop advancedPciSettingsEnabled (Name device) nvConfig
                                (rng desiredConfig) False False), s3)))))"

subsection \<open>ApplyDeviceNvSpec\<close>

text \<open>The first loop of the normal path (lines 249 to 260): every desired parameter must be
  in \<open>NextBootConfig\<close>; those whose next-boot value differs are stored in
  \<open>paramsToApply\<close>.\<close>

fun collectParams :: "string \<Rightarrow> nvparams \<Rightarrow> nvparams \<Rightarrow> nvparams \<Rightarrow> error + nvparams" where
  "collectParams deviceName nextBootConfig [] paramsToApply = Inr paramsToApply"
| "collectParams deviceName nextBootConfig ((param, val) # rest) paramsToApply =
     (case lookup nextBootConfig param of (nextVal, found) \<Rightarrow>
        if \<not> found then Inl (unsupportedParameter param deviceName)
        else if nextVal \<noteq> val
        then collectParams deviceName nextBootConfig rest (AList.update param val paramsToApply)
        else collectParams deviceName nextBootConfig rest paramsToApply)"

text \<open>The second loop (lines 264 to 270): one \<open>SetNvConfigParameter\<close> per entry of
  \<open>paramsToApply\<close>, stopping at the first error.\<close>

fun writeParams ::
  "'w HostUtils \<Rightarrow> string \<Rightarrow> nvparams \<Rightarrow> 'w hoststate \<Rightarrow> error option \<times> 'w hoststate"
where
  "writeParams hu pciAddr [] s = (None, s)"
| "writeParams hu pciAddr ((param, val) # rest) s =
     (case logged (CSetNvConfigParameter pciAddr param val)
             (\<lambda>w. SetNvConfigParameter hu w pciAddr param val) s of
        (Some err, s1) \<Rightarrow> (Some err, s1)
      | (None, s1) \<Rightarrow> writeParams hu pciAddr rest s1)"

text \<open>The reset-to-default path, lines 196 to 211.\<close>

definition resetToDefault ::
  "constants \<Rightarrow> 'w HostUtils \<Rightarrow> string \<Rightarrow> 'w hoststate \<Rightarrow> (bool \<times> error option) \<times> 'w hoststate"
where
  "resetToDefault K hu pciAddr s =
     (case logged (CResetNvConfig pciAddr) (\<lambda>w. ResetNvConfig hu w pciAddr) s of
        (Some err, s1) \<Rightarrow> ((False, Some err), s1)
      | (None, s1) \<Rightarrow>
        (case logged (CSetNvConfigParameter pciAddr (AdvancedPCISettingsParam K) (NvParamTrue K))
                (\<lambda>w. SetNvConfigParameter hu w pciAddr (AdvancedPCISettingsParam K)
                        (NvParamTrue K)) s1 of
           (Some err, s2) \<Rightarrow> ((False, Some err), s2)
         | (None, s2) \<Rightarrow> ((True, None), s2)))"

text \<open>Lines 213 to 239: the query of the NV configuration and, when the advanced PCI
  settings are off in the current configuration, the write of the gate parameter, the
  firmware reset and the second query. The result is the \<open>nvConfig\<close> the rest of the
  function works on, or the error the function returns. The
  address \<open>device.Status.Ports[0].PCI\<close> of lines 213 and 234 is \<open>pciAddr\<close>, read at line
  194 from the same device.\<close>

definition queryWithAdvancedSettings ::
  "constants \<Rightarrow> ('w, 't) hostManager \<Rightarrow> string \<Rightarrow> 'w hoststate
     \<Rightarrow> (error + NvConfigQuery) \<times> 'w hoststate"
where
  "queryWithAdvancedSettings K h pciAddr s =
     (case logged (CQueryNvConfig pciAddr) (\<lambda>w. QueryNvConfig (hostUtils h) w pciAddr) s of
        (Inl err, s1) \<Rightarrow> (Inl err, s1)
      | (Inr nvConfig, s1) \<Rightarrow>
        (case unlogged (\<lambda>w. AdvancedPCISettingsEnabled (configValidation h) w
                              (CurrentConfig nvConfig)) s1 of
           (True, s2) \<Rightarrow> (Inr nvConfig, s2)
         | (False, s2) \<Rightarrow>
           (case logged (CSetNvConfigParameter pciAddr (AdvancedPCISettingsParam K) (NvParamTrue K))
                   (\<lambda>w. SetNvConfigParameter (hostUtils h) w pciAddr
                           (AdvancedPCISettingsParam K) (NvParamTrue K)) s2 of
              (Some err, s3) \<Rightarrow> (Inl err, s3)
            | (None, s3) \<Rightarrow>
              (case logged (CResetNicFirmware pciAddr)
                      (\<lambda>w. ResetNicFirmware (hostUtils h) w pciAddr) s3 of
                 (Some err, s4) \<Rightarrow> (Inl err, s4)
               | (None, s4) \<Rightarrow>
                 logged (CQueryNvConfig pciAddr)
                   (\<lambda>w. QueryNvConfig (hostUtils h) w pciAddr) s4))))"

text \<open>Lines 241 to 274: the desired parameters, the two iterations, and the result.\<close>

definition diffAndWrite ::
  "(nvparams \<Rightarrow> nvparams) \<Rightarrow> ('w, 't) hostManager \<Rightarrow> 't NicDevice \<Rightarrow> string \<Rightarrow> NvConfigQuery
     \<Rightarrow> 'w hoststate \<Rightarrow> (bool \<times> error option) \<times> 'w hoststate"
where
  "diffAndWrite rng h device pciAddr nvConfig s =
     (case unlogged (\<lambda>w. ConstructNvParamMapFromTemplate (configValidation h) w device
                           (DefaultConfig nvConfig)) s of
        (Inl err, s1) \<Rightarrow> ((False, Some err), s1)
      | (Inr desiredConfig, s1) \<Rightarrow>
        (case collectParams (Name device) (NextBootConfig nvConfig) (rng desiredConfig) [] of
           Inl err \<Rightarrow> ((False, Some err), s1)
         | Inr paramsToApply \<Rightarrow>
           (case writeParams (hostUtils h) pciAddr (rng paramsToApply) s1 of
              (Some err, s2) \<Rightarrow> ((False, Some err), s2)
            | (None, s2) \<Rightarrow> ((True, None), s2))))"

definition ApplyDeviceNvSpec ::
  "constants \<Rightarrow> (nvparams \<Rightarrow> nvparams) \<Rightarrow> ('w, 't) hostManager \<Rightarrow> 't NicDevice \<Rightarrow> 'w hoststate
     \<Rightarrow> (bool \<times> error option) outcome \<times> 'w hoststate"
where
  "ApplyDeviceNvSpec K rng h device s =
     (case sliceIndex (Ports (Status device)) 0 of
        Panic \<Rightarrow> (Panic, s)
      | Return port0 \<Rightarrow>
        (let pciAddr = PCI port0 in
         if ResetToDefault device
         then (case resetToDefault K (hostUtils h) pciAddr s of (res, s1) \<Rightarrow> (Return res, s1))
         else
           (case queryWithAdvancedSettings K h pciAddr s of
              (Inl err, s1) \<Rightarrow> (Return (False, Some err), s1)
            | (Inr nvConfig, s1) \<Rightarrow>
              (case diffAndWrite rng h device pciAddr nvConfig s1 of
                 (res, s2) \<Rightarrow> (Return res, s2)))))"

subsection \<open>ApplyDeviceRuntimeSpec\<close>

text \<open>Lines 296 to 309. \<open>Return None\<close> is "go on". \<open>ports[0]\<close> is read with no test of
  the length; \<open>ports[1]\<close> is read under the test \<open>len(ports) == 2\<close> of line 302.\<close>

definition setMaxReadRequestSizes ::
  "'w HostUtils \<Rightarrow> NicDevicePortSpec list \<Rightarrow> int \<Rightarrow> 'w hoststate
     \<Rightarrow> error option outcome \<times> 'w hoststate"
where
  "setMaxReadRequestSizes hu ports desiredMaxReadReqSize s =
     (if desiredMaxReadReqSize \<noteq> 0
      then
        (case sliceIndex ports 0 of
           Panic \<Rightarrow> (Panic, s)
         | Return port0 \<Rightarrow>
           (case logged (CSetMaxReadRequestSize (PCI port0) desiredMaxReadReqSize)
                   (\<lambda>w. SetMaxReadRequestSize hu w (PCI port0) desiredMaxReadReqSize) s of
              (Some err, s1) \<Rightarrow> (Return (Some err), s1)
            | (None, s1) \<Rightarrow>
              if length ports = 2
              then (case sliceIndex ports 1 of
                      Panic \<Rightarrow> (Panic, s1)
                    | Return port1 \<Rightarrow>
                      (case logged (CSetMaxReadRequestSize (PCI port1) desiredMaxReadReqSize)
                              (\<lambda>w. SetMaxReadRequestSize hu w (PCI port1)
                                      desiredMaxReadReqSize) s1 of
                         (err, s2) \<Rightarrow> (Return err, s2)))
              else (Return None, s1)))
      else (Return None, s))"

text \<open>Lines 311 to 324.\<close>

definition setTrustAndPFCs ::
  "'w HostUtils \<Rightarrow> NicDevicePortSpec list \<Rightarrow> string \<Rightarrow> string \<Rightarrow> 'w hoststate
     \<Rightarrow> error option outcome \<times> 'w hoststate"
where
  "setTrustAndPFCs hu ports desiredTrust desiredPfc s =
     (case sliceIndex ports 0 of
        Panic \<Rightarrow> (Panic, s)
      | Return port0 \<Rightarrow>
        (case logged (CSetTrustAndPFC (NetworkInterface port0) desiredTrust desiredPfc)
                (\<lambda>w. SetTrustAndPFC hu w (NetworkInterface port0) desiredTrust desiredPfc) s of
           (Some err, s1) \<Rightarrow> (Return (Some err), s1)
         | (None, s1) \<Rightarrow>
           if length ports = 2
           then (case sliceIndex ports 1 of
                   Panic \<Rightarrow> (Panic, s1)
                 | Return port1 \<Rightarrow>
                   (case logged (CSetTrustAndPFC (NetworkInterface port1) desiredTrust desiredPfc)
                           (\<lambda>w. SetTrustAndPFC hu w (NetworkInterface port1)
                                   desiredTrust desiredPfc) s1 of
                      (err, s2) \<Rightarrow> (Return err, s2)))
           else (Return None, s1)))"

text \<open>The error of \<open>RuntimeConfigApplied\<close> is logged (lines 283 to 285) and nothing else is
  done with it: the function goes on to read \<open>alreadyApplied\<close>.\<close>

definition ApplyDeviceRuntimeSpec ::
  "('w, 't) hostManager \<Rightarrow> 't NicDevice \<Rightarrow> 'w hoststate \<Rightarrow> error option outcome \<times> 'w hoststate"
where
  "ApplyDeviceRuntimeSpec h device s =
     (case unlogged (\<lambda>w. RuntimeConfigApplied (configValidation h) w device) s of
        ((alreadyApplied, err), s1) \<Rightarrow>
          if alreadyApplied then (Return None, s1)
          else
            (case unlogged (\<lambda>w. CalculateDesiredRuntimeConfig (configValidation h) w device) s1 of
               ((desiredMaxReadReqSize, desiredTrust, desiredPfc), s2) \<Rightarrow>
                 (let ports = Ports (Status device) in
                  case setMaxReadRequestSizes (hostUtils h) ports desiredMaxReadReqSize s2 of
                    (Panic, s3) \<Rightarrow> (Panic, s3)
                  | (Return (Some err), s3) \<Rightarrow> (Return (Some err), s3)
                  | (Return None, s3) \<Rightarrow>
                      setTrustAndPFCs (hostUtils h) ports desiredTrust desiredPfc s3)))"

subsection \<open>DiscoverNicDevices\<close>

text \<open>\<open>strconv.ParseInt(s, 16, 64)\<close> of Go's standard library, as far as
  \<open>DiscoverNicDevices\<close> depends on it: the value, or \<open>None\<close> for any error (a syntax
  error or a value out of the range of \<open>int64\<close>). A digit is \<open>0\<close> to \<open>9\<close> or a letter of
  either case, and must be below the base.\<close>

definition digitValue :: "char \<Rightarrow> nat option" where
  "digitValue c =
     (let n = (of_char c :: nat) in
      if 48 \<le> n \<and> n \<le> 57 then Some (n - 48)
      else if 97 \<le> n \<and> n \<le> 122 then Some (n - 97 + 10)
      else if 65 \<le> n \<and> n \<le> 90 then Some (n - 65 + 10)
      else None)"

fun parseUintLoop :: "nat \<Rightarrow> string \<Rightarrow> nat option" where
  "parseUintLoop n [] = Some n"
| "parseUintLoop n (c # cs) =
     (case digitValue c of
        None \<Rightarrow> None
      | Some d \<Rightarrow>
          if d \<ge> 16 then None
          else if n \<ge> (2 ^ 64 - 1) div 16 + 1 then None
          else if n * 16 + d > 2 ^ 64 - 1 then None
          else parseUintLoop (n * 16 + d) cs)"

definition ParseUint16 :: "string \<Rightarrow> nat option" where
  "ParseUint16 s = (if s = [] then None else parseUintLoop 0 s)"

definition ParseInt16 :: "string \<Rightarrow> int option" where
  "ParseInt16 s =
     (case s of
        [] \<Rightarrow> None
      | c # cs \<Rightarrow>
        (let neg = (c = CHR ''-'');
             digits = (if c = CHR ''+'' \<or> c = CHR ''-'' then cs else s)
         in case ParseUint16 digits of
              None \<Rightarrow> None
            | Some un \<Rightarrow>
                if \<not> neg \<and> un \<ge> 2 ^ 63 then None
                else if neg \<and> un > 2 ^ 63 then None
                else Some (if neg then - int un else int un)))"

text \<open>The body of the loop over the PCI devices (lines 68 to 128), for one device.
  \<open>continue\<close> hands the map back unchanged; a \<open>return nil, err\<close> is \<open>Inl err\<close>.\<close>

definition discoverDevice ::
  "constants \<Rightarrow> ('w, 't) hostManager \<Rightarrow> PCIDevice \<Rightarrow> (string \<times> NicDeviceStatus) list
     \<Rightarrow> 'w hoststate \<Rightarrow> (error + (string \<times> NicDeviceStatus) list) \<times> 'w hoststate"
where
  "discoverDevice K h device devices s =
     (if VendorID device \<noteq> MellanoxVendor K then (Inr devices, s)
      else
        (case ParseInt16 (ClassID device) of
           None \<Rightarrow> (Inr devices, s)
         | Some devClass \<Rightarrow>
           if devClass \<noteq> NetClass K then (Inr devices, s)
           else
             (case logged (CIsSriovVF (Address device))
                     (\<lambda>w. IsSriovVF (hostUtils h) w (Address device)) s of
                (True, s1) \<Rightarrow> (Inr devices, s1)
              | (False, s1) \<Rightarrow>
                (case logged (CGetPartAndSerialNumber (Address device))
                        (\<lambda>w. GetPartAndSerialNumber (hostUtils h) w (Address device)) s1 of
                   (Inl err, s2) \<Rightarrow> (Inl err, s2)
                 | (Inr (partNumber, serialNumber), s2) \<Rightarrow>
                   (case
                      (case map_of devices serialNumber of
                         Some deviceStatus \<Rightarrow> (Inr (deviceStatus, devices), s2)
                       | None \<Rightarrow>
                         (case logged (CGetFirmwareVersionAndPSID (Address device))
                                 (\<lambda>w. GetFirmwareVersionAndPSID (hostUtils h) w (Address device))
                                 s2 of
                            (Inl err, s3) \<Rightarrow> (Inl err, s3)
                          | (Inr (firmwareVersion, psid), s3) \<Rightarrow>
                            (let deviceStatus =
                                   \<lparr>Node = '''', Type = ProductID device,
                                    SerialNumber = serialNumber, PartNumber = partNumber,
                                    PSID = psid, FirmwareVersion = firmwareVersion, Ports = []\<rparr>
                             in (Inr (deviceStatus,
                                      AList.update serialNumber deviceStatus devices), s3))))
                    of
                      (Inl err, s3) \<Rightarrow> (Inl err, s3)
                    | (Inr (deviceStatus, devices1), s3) \<Rightarrow>
                      (case logged (CGetInterfaceName (Address device))
                              (\<lambda>w. GetInterfaceName (hostUtils h) w (Address device)) s3 of
                         (networkInterface, s4) \<Rightarrow>
                         (case logged (CGetRDMADeviceName (Address device))
                                 (\<lambda>w. GetRDMADeviceName (hostUtils h) w (Address device)) s4 of
                            (rdmaInterface, s5) \<Rightarrow>
                            (let deviceStatus1 =
                                   deviceStatus
                                     \<lparr>Ports := Ports deviceStatus @
                                        [\<lparr>PCI = Address device,
                                          NetworkInterface = networkInterface,
                                          RdmaInterface = rdmaInterface\<rparr>]\<rparr>;
                                 deviceStatus2 = deviceStatus1\<lparr>Node := nodeName h\<rparr>
                             in (Inr (AList.update (SerialNumber deviceStatus2) deviceStatus2
                                        devices1), s5)))))))))"

fun discoverLoop ::
  "constants \<Rightarrow> ('w, 't) hostManager \<Rightarrow> PCIDevice list \<Rightarrow> (string \<times> NicDeviceStatus) list
     \<Rightarrow> 'w hoststate \<Rightarrow> (error + (string \<times> NicDeviceStatus) list) \<times> 'w hoststate"
where
  "discoverLoop K h [] devices s = (Inr devices, s)"
| "discoverLoop K h (device # rest) devices s =
     (case discoverDevice K h device devices s of
        (Inl err, s1) \<Rightarrow> (Inl err, s1)
      | (Inr devices1, s1) \<Rightarrow> discoverLoop K h rest devices1 s1)"

text \<open>The result is the pair Go returns: the map or \<open>nil\<close>, and the error or \<open>nil\<close>.\<close>

definition DiscoverNicDevices ::
  "constants \<Rightarrow> ('w, 't) hostManager \<Rightarrow> 'w hoststate
     \<Rightarrow> ((string \<times> NicDeviceStatus) list option \<times> error option) outcome \<times> 'w hoststate"
where
  "DiscoverNicDevices K h s =
     (case logged CGetPCIDevices (\<lambda>w. GetPCIDevices (hostUtils h) w) s of
        (Inl err, s1) \<Rightarrow> (Return (None, Some err), s1)
      | (Inr pciDevices, s1) \<Rightarrow>
        (case discoverLoop K h pciDevices [] s1 of
           (Inl err, s2) \<Rightarrow> (Return (None, Some err), s2)
         | (Inr devices, s2) \<Rightarrow> (Return (Some devices, None), s2)))"

subsection \<open>The order of \<open>range\<close>\<close>

text \<open>Whatever order \<open>range\<close> takes, it visits every entry of the map once.\<close>

definition rangeVisitsAll :: "(nvparams \<Rightarrow> nvparams) \<Rightarrow> bool" where
  "rangeVisitsAll rng \<longleftrightarrow> (\<forall>m. mset (rng m) = mset m)"

subsection \<open>A concrete host\<close>

text \<open>A host without state, for running the operations on concrete devices: the calls listed
  in \<open>fails\<close> return an error, every other call succeeds; the PCI bus holds \<open>pci\<close> and
  the firmware answers every query with \<open>nv\<close>.\<close>

definition demoConsts :: constants where
  "demoConsts =
     \<lparr>MellanoxVendor = ''15b3'', NetClass = 2,
      AdvancedPCISettingsParam = ''ADVANCED_PCI_SETTINGS'', NvParamTrue = ''1''\<rparr>"

definition failure :: "call list \<Rightarrow> call \<Rightarrow> error option" where
  "failure fails c = (if c \<in> set fails then Some (HostError ''failed'') else None)"

definition demoUtils :: "call list \<Rightarrow> PCIDevice list \<Rightarrow> NvConfigQuery \<Rightarrow> unit HostUtils" where
  "demoUtils fails pci nv =
     \<lparr>GetPCIDevices = (\<lambda>w. (Inr pci, w)),
      IsSriovVF = (\<lambda>w a. (False, w)),
      GetPartAndSerialNumber =
        (\<lambda>w a. (case failure fails (CGetPartAndSerialNumber a) of
                   Some e \<Rightarrow> Inl e | None \<Rightarrow> Inr (''MCX623106AC-CDA'', ''MT2116X09299''), w)),
      GetFirmwareVersionAndPSID =
        (\<lambda>w a. (case failure fails (CGetFirmwareVersionAndPSID a) of
                   Some e \<Rightarrow> Inl e | None \<Rightarrow> Inr (''22.31.1014'', ''MT_0000000359''), w)),
      GetInterfaceName = (\<lambda>w a. (''eth-'' @ a, w)),
      GetRDMADeviceName = (\<lambda>w a. (''rdma-'' @ a, w)),
      QueryNvConfig = (\<lambda>w a. (Inr nv, w)),
      SetNvConfigParameter = (\<lambda>w a p v. (failure fails (CSetNvConfigParameter a p v), w)),
      ResetNvConfig = (\<lambda>w a. (failure fails (CResetNvConfig a), w)),
      ResetNicFirmware = (\<lambda>w a. (failure fails (CResetNicFirmware a), w)),
      SetMaxReadRequestSize = (\<lambda>w a n. (failure fails (CSetMaxReadRequestSize a n), w)),
      SetTrustAndPFC = (\<lambda>w i t p. (failure fails (CSetTrustAndPFC i t p), w))\<rparr>"

text \<open>A configuration calculator that answers with fixed values: the desired parameters
  \<open>desired\<close>, the answer \<open>applied\<close> of \<open>RuntimeConfigApplied\<close>, and the desired
  max-read-request size \<open>mrrs\<close>.\<close>

definition demoValidation ::
  "nvparams \<Rightarrow> bool \<times> error option \<Rightarrow> int \<Rightarrow> (unit, unit) configValidation"
where
  "demoValidation desired applied mrrs =
     \<lparr>ValidateResetToDefault = (\<lambda>w nv. ((False, False, None), w)),
      ConstructNvParamMapFromTemplate = (\<lambda>w d dflt. (Inr desired, w)),
      AdvancedPCISettingsEnabled =
        (\<lambda>w cur. (map_of cur ''ADVANCED_PCI_SETTINGS'' = Some ''1'', w)),
      RuntimeConfigApplied = (\<lambda>w d. (applied, w)),
      CalculateDesiredRuntimeConfig = (\<lambda>w d. ((mrrs, ''dscp'', ''0,0,0,1,0,0,0,0''), w))\<rparr>"

definition demoManager ::
  "call list \<Rightarrow> PCIDevice list \<Rightarrow> NvConfigQuery \<Rightarrow> nvparams \<Rightarrow> bool \<times> error option \<Rightarrow> int
     \<Rightarrow> (unit, unit) hostManager"
where
  "demoManager fails pci nv desired applied mrrs =
     \<lparr>nodeName = ''node-1'', hostUtils = demoUtils fails pci nv,
      configValidation = demoValidation desired applied mrrs\<rparr>"

definition portA :: NicDevicePortSpec where
  "portA = \<lparr>PCI = ''0000:03:00.0'', NetworkInterface = ''enp3s0f0'', RdmaInterface = ''mlx5_0''\<rparr>"

definition portB :: NicDevicePortSpec where
  "portB = \<lparr>PCI = ''0000:03:00.1'', NetworkInterface = ''enp3s0f1'', RdmaInterface = ''mlx5_1''\<rparr>"

definition demoDevice :: "NicDevicePortSpec list \<Rightarrow> bool \<Rightarrow> unit NicDevice" where
  "demoDevice ports reset =
     \<lparr>Name = ''nic-1'', ResetToDefault = reset, Template = (),
      Status = \<lparr>Node = ''node-1'', Type = ''101d'', SerialNumber = ''MT2116X09299'',
                PartNumber = ''MCX623106AC-CDA'', PSID = ''MT_0000000359'',
                FirmwareVersion = ''22.31.1014'', Ports = ports\<rparr>\<rparr>"

definition demoNv :: "nvparams \<Rightarrow> nvparams \<Rightarrow> NvConfigQuery" where
  "demoNv current nextBoot =
     \<lparr>CurrentConfig = current, NextBootConfig = nextBoot, DefaultConfig = current\<rparr>"



text \<open>PCI devices as the bus lists them: a port of a Mellanox network card, and a record of
  the same vendor whose class code is not a hexadecimal number.\<close>

definition nicFunction :: "string \<Rightarrow> PCIDevice" where
  "nicFunction addr =
     \<lparr>Address = addr, VendorID = ''15b3'', ClassID = ''02'', ProductID = ''101d'',
      ProductName = ''MT2892 Family''\<rparr>"

definition oddFunction :: PCIDevice where
  "oddFunction =
     \<lparr>Address = ''0000:ff:00.0'', VendorID = ''15b3'', ClassID = ''zz'', ProductID = ''0000'',
      ProductName = ''unknown''\<rparr>"

subsection \<open>Reading the log of calls\<close>

fun isSetMaxReadRequestSize :: "call \<Rightarrow> bool" where
  "isSetMaxReadRequestSize (CSetMaxReadRequestSize a n) = True"
| "isSetMaxReadRequestSize _ = False"

text \<open>The PCI addresses for which \<open>GetInterfaceName\<close> was called, in the order of the
  calls: \<open>DiscoverNicDevices\<close> makes this call (line 118) for each PCI device it keeps, and
  for no other.\<close>

fun interfaceQueries :: "call list \<Rightarrow> string list" where
  "interfaceQueries [] = []"
| "interfaceQueries (CGetInterfaceName a # cs) = a # interfaceQueries cs"
| "interfaceQueries (_ # cs) = interfaceQueries cs"

text \<open>The PCI addresses of all the ports of a map of devices.\<close>

definition portAddresses :: "(string \<times> NicDeviceStatus) list \<Rightarrow> string list" where
  "portAddresses devices = concat (map (\<lambda>(k, d). map PCI (Ports d)) devices)"

section \<open>Properties\<close>

subsection \<open>Reading maps\<close>

lemma rangeVisitsAll_set: "rangeVisitsAll rng \<Longrightarrow> set (rng m) = set m"
  unfolding rangeVisitsAll_def by (metis mset_eq_setD)

lemma rangeVisitsAll_empty: "rangeVisitsAll rng \<Longrightarrow> rng [] = []"
  unfolding rangeVisitsAll_def by (metis mset_zero_iff_right)

lemma rangeVisitsAll_id: "rangeVisitsAll id"
  by (simp add: rangeVisitsAll_def)

lemma lookup_cases:
  "lookup m k = (case map_of m k of None \<Rightarrow> ('''', False) | Some v \<Rightarrow> (v, True))"
  by (simp add: lookup_def)

subsection \<open>The loop of ValidateDeviceNvSpec\<close>

text \<open>When no desired parameter is rejected, the loop returns the disjunction of what each
  parameter asks for.\<close>

lemma validateLoop_ok:
  "\<not> (adv \<and> (\<exists>(p, v) \<in> set ps. map_of (CurrentConfig nv) p = None)) \<Longrightarrow>
   validateLoop adv name nv ps u r =
     (u \<or> (\<exists>(p, v) \<in> set ps. map_of (NextBootConfig nv) p \<noteq> Some v),
      r \<or> (\<exists>(p, v) \<in> set ps. map_of (NextBootConfig nv) p \<noteq> Some v
                              \<or> map_of (CurrentConfig nv) p \<noteq> Some v),
      None)"
proof (induction ps arbitrary: u r)
  case Nil
  then show ?case by simp
next
  case (Cons a ps)
  obtain p v where a: "a = (p, v)" by (cases a)
  from Cons.prems a have ok: "\<not> (adv \<and> (\<exists>(p, v) \<in> set ps. map_of (CurrentConfig nv) p = None))"
    and here: "\<not> (adv \<and> map_of (CurrentConfig nv) p = None)" by auto
  show ?case
    using here Cons.IH[OF ok] unfolding a
    by (auto simp: lookup_cases split: option.splits)
qed

text \<open>With the advanced settings on, the first desired parameter missing from the current
  configuration ends the loop with the spec error.\<close>

lemma validateLoop_err:
  "adv \<Longrightarrow> \<exists>(p, v) \<in> set ps. map_of (CurrentConfig nv) p = None \<Longrightarrow>
   \<exists>p \<in> fst ` set ps. map_of (CurrentConfig nv) p = None \<and>
      validateLoop adv name nv ps u r = (False, False, Some (unsupportedParameter p name))"
proof (induction ps arbitrary: u r)
  case Nil
  then show ?case by simp
next
  case (Cons a ps)
  obtain p v where a: "a = (p, v)" by (cases a)
  show ?case
  proof (cases "map_of (CurrentConfig nv) p = None")
    case True
    then show ?thesis using Cons.prems(1) unfolding a by (auto simp: lookup_cases)
  next
    case False
    with Cons.prems a have "\<exists>(p, v) \<in> set ps. map_of (CurrentConfig nv) p = None" by auto
    from Cons.IH[OF Cons.prems(1) this] show ?thesis
      using False Cons.prems(1) unfolding a
      by (auto simp: lookup_cases split: option.splits)
  qed
qed

text \<open>The normal path of the function, once the three collaborators have answered.\<close>

lemma ValidateDeviceNvSpec_normal:
  assumes "Ports (Status device) = port0 # ports"
    and "\<not> ResetToDefault device"
    and "QueryNvConfig (hostUtils h) w (PCI port0) = (Inr nvConfig, w1)"
    and "ConstructNvParamMapFromTemplate (configValidation h) w1 device (DefaultConfig nvConfig)
           = (Inr desiredConfig, w2)"
    and "AdvancedPCISettingsEnabled (configValidation h) w2 (CurrentConfig nvConfig) = (adv, w3)"
  shows "ValidateDeviceNvSpec rng h device (w, calls) =
           (Return (validateLoop adv (Name device) nvConfig (rng desiredConfig) False False),
            (w3, calls @ [CQueryNvConfig (PCI port0)]))"
  using assms by (simp add: ValidateDeviceNvSpec_def sliceIndex_def logged_def unlogged_def)

lemmas demo_defs = demoManager_def demoUtils_def demoValidation_def demoDevice_def demoNv_def
  portA_def portB_def failure_def demoConsts_def

lemma demoDevice_simps [simp]:
  "Ports (Status (demoDevice ports reset)) = ports"
  "ResetToDefault (demoDevice ports reset) = reset"
  "Name (demoDevice ports reset) = ''nic-1''"
  by (simp_all add: demoDevice_def)

subsection \<open>ValidateDeviceNvSpec: when nothing is needed\<close>

text \<open>With the current value already equal to the desired one but another value pending
  for the next boot, the function asks for an update and a reboot: equality of the
  current values alone does not give \<open>(false, false)\<close>.\<close>

theorem validate_settled_counterexample:
  "map_of (CurrentConfig (demoNv [(''P1'', ''1'')] [(''P1'', ''0'')])) ''P1'' = Some ''1'' \<and>
   fst (ValidateDeviceNvSpec id
          (demoManager [] [] (demoNv [(''P1'', ''1'')] [(''P1'', ''0'')]) [(''P1'', ''1'')]
             (False, None) 0)
          (demoDevice [portA] False) ((), []))
     = Return (True, True, None)"
  by (simp add: ValidateDeviceNvSpec_def sliceIndex_def logged_def unlogged_def demo_defs lookup_def Let_def)

text \<open>Claim C1, as amended. For a device that does not ask for a reset to default, once the
  NV configuration is queried and the desired parameters are built, \<open>ValidateDeviceNvSpec\<close>
  returns \<open>(false, false, nil)\<close> if and only if every desired parameter has both its
  current value and its next-boot value equal to the desired value.\<close>

theorem validate_settled_iff:
  assumes "rangeVisitsAll rng"
    and "Ports (Status device) = port0 # ports"
    and "\<not> ResetToDefault device"
    and "QueryNvConfig (hostUtils h) w (PCI port0) = (Inr nvConfig, w1)"
    and "ConstructNvParamMapFromTemplate (configValidation h) w1 device (DefaultConfig nvConfig)
           = (Inr desiredConfig, w2)"
  shows "fst (ValidateDeviceNvSpec rng h device (w, calls)) = Return (False, False, None) \<longleftrightarrow>
         (\<forall>(p, v) \<in> set desiredConfig.
             map_of (CurrentConfig nvConfig) p = Some v \<and>
             map_of (NextBootConfig nvConfig) p = Some v)"
proof -
  obtain adv w3 where adv:
    "AdvancedPCISettingsEnabled (configValidation h) w2 (CurrentConfig nvConfig) = (adv, w3)"
    by (cases "AdvancedPCISettingsEnabled (configValidation h) w2 (CurrentConfig nvConfig)")
  note run = ValidateDeviceNvSpec_normal[OF assms(2-5) adv, of rng calls]
  note vis = rangeVisitsAll_set[OF assms(1), of desiredConfig]
  show ?thesis
  proof (cases "adv \<and> (\<exists>(p, v) \<in> set (rng desiredConfig). map_of (CurrentConfig nvConfig) p = None)")
    case True
    then obtain p where "validateLoop adv (Name device) nvConfig (rng desiredConfig) False False
        = (False, False, Some (unsupportedParameter p (Name device)))"
      using validateLoop_err[of adv "rng desiredConfig" nvConfig] by blast
    moreover from True have "\<not> (\<forall>(p, v) \<in> set desiredConfig.
             map_of (CurrentConfig nvConfig) p = Some v \<and>
             map_of (NextBootConfig nvConfig) p = Some v)"
      unfolding vis by fastforce
    ultimately show ?thesis by (simp add: run)
  next
    case False
    from validateLoop_ok[OF False] show ?thesis
      unfolding vis by (auto simp: run)
  qed
qed

text \<open>The theorem on a settled parameter, and on one that waits for a reboot.\<close>

theorem validate_settled_iff_witness:
  "fst (ValidateDeviceNvSpec id
          (demoManager [] [] (demoNv [(''P1'', ''1'')] [(''P1'', ''1'')]) [(''P1'', ''1'')]
             (False, None) 0)
          (demoDevice [portA] False) ((), []))
     = Return (False, False, None) \<and>
   fst (ValidateDeviceNvSpec id
          (demoManager [] [] (demoNv [(''P1'', ''0'')] [(''P1'', ''1'')]) [(''P1'', ''1'')]
             (False, None) 0)
          (demoDevice [portA] False) ((), []))
     \<noteq> Return (False, False, None)"
  using validate_settled_iff[where rng = id and device = "demoDevice [portA] False"
      and ?port0.0 = portA and ports = "[]" and w = "()" and ?w1.0 = "()" and ?w2.0 = "()"
      and calls = "[]" and desiredConfig = "[(''P1'', ''1'')]"
      and nvConfig = "demoNv [(''P1'', ''1'')] [(''P1'', ''1'')]"
      and h = "demoManager [] [] (demoNv [(''P1'', ''1'')] [(''P1'', ''1'')]) [(''P1'', ''1'')]
             (False, None) 0"]
    validate_settled_iff[where rng = id and device = "demoDevice [portA] False"
      and ?port0.0 = portA and ports = "[]" and w = "()" and ?w1.0 = "()" and ?w2.0 = "()"
      and calls = "[]" and desiredConfig = "[(''P1'', ''1'')]"
      and nvConfig = "demoNv [(''P1'', ''0'')] [(''P1'', ''1'')]"
      and h = "demoManager [] [] (demoNv [(''P1'', ''0'')] [(''P1'', ''1'')]) [(''P1'', ''1'')]
             (False, None) 0"]
  by (simp add: rangeVisitsAll_id demoManager_def demoUtils_def demoValidation_def demoNv_def)

subsection \<open>ValidateDeviceNvSpec: when an update is needed\<close>

text \<open>Claim C2. For a device that does not ask for a reset to default, once the NV
  configuration is queried and the desired parameters are built, and when the function
  returns no error: it returns \<open>(true, true)\<close> if and only if some desired parameter has
  a next-boot value that differs from the desired one, a parameter missing from
  \<open>NextBootConfig\<close> counting as differing.\<close>

theorem validate_update_iff:
  assumes "rangeVisitsAll rng"
    and "Ports (Status device) = port0 # ports"
    and "\<not> ResetToDefault device"
    and "QueryNvConfig (hostUtils h) w (PCI port0) = (Inr nvConfig, w1)"
    and "ConstructNvParamMapFromTemplate (configValidation h) w1 device (DefaultConfig nvConfig)
           = (Inr desiredConfig, w2)"
    and "fst (ValidateDeviceNvSpec rng h device (w, calls)) = Return (updateNeeded, rebootNeeded, None)"
  shows "(updateNeeded \<and> rebootNeeded) \<longleftrightarrow>
         (\<exists>(p, v) \<in> set desiredConfig. map_of (NextBootConfig nvConfig) p \<noteq> Some v)"
proof -
  obtain adv w3 where adv:
    "AdvancedPCISettingsEnabled (configValidation h) w2 (CurrentConfig nvConfig) = (adv, w3)"
    by (cases "AdvancedPCISettingsEnabled (configValidation h) w2 (CurrentConfig nvConfig)")
  note run = ValidateDeviceNvSpec_normal[OF assms(2-5) adv, of rng calls]
  note vis = rangeVisitsAll_set[OF assms(1), of desiredConfig]
  have loop: "validateLoop adv (Name device) nvConfig (rng desiredConfig) False False
                = (updateNeeded, rebootNeeded, None)"
    using assms(6) by (simp add: run)
  have "\<not> (adv \<and> (\<exists>(p, v) \<in> set (rng desiredConfig). map_of (CurrentConfig nvConfig) p = None))"
  proof
    assume "adv \<and> (\<exists>(p, v) \<in> set (rng desiredConfig). map_of (CurrentConfig nvConfig) p = None)"
    then obtain p where "validateLoop adv (Name device) nvConfig (rng desiredConfig) False False
        = (False, False, Some (unsupportedParameter p (Name device)))"
      using validateLoop_err[of adv "rng desiredConfig" nvConfig] by blast
    with loop show False by simp
  qed
  from validateLoop_ok[OF this, of "Name device" False False] loop show ?thesis
    unfolding vis by auto
qed

text \<open>The theorem on a parameter whose next-boot value is not the desired one.\<close>

theorem validate_update_iff_witness:
  "fst (ValidateDeviceNvSpec id
          (demoManager [] [] (demoNv [(''P1'', ''1'')] [(''P1'', ''0'')]) [(''P1'', ''1'')]
             (False, None) 0)
          (demoDevice [portA] False) ((), []))
     = Return (True, True, None) \<and>
   (\<exists>(p, v) \<in> set [(''P1'', ''1'')].
       map_of (NextBootConfig (demoNv [(''P1'', ''1'')] [(''P1'', ''0'')])) p \<noteq> Some v)"
proof -
  let ?nv = "demoNv [(''P1'', ''1'')] [(''P1'', ''0'')]"
  let ?h = "demoManager [] [] ?nv [(''P1'', ''1'')] (False, None) 0"
  let ?d = "demoDevice [portA] False"
  have run: "fst (ValidateDeviceNvSpec id ?h ?d ((), [])) = Return (True, True, None)"
    by (simp add: ValidateDeviceNvSpec_def sliceIndex_def logged_def unlogged_def demo_defs lookup_def Let_def)
  have "(True \<and> True) \<longleftrightarrow>
        (\<exists>(p, v) \<in> set [(''P1'', ''1'')]. map_of (NextBootConfig ?nv) p \<noteq> Some v)"
    by (rule validate_update_iff[where rng = id and device = ?d and ?port0.0 = portA
          and ports = "[]" and h = ?h and w = "()" and ?w1.0 = "()" and ?w2.0 = "()"
          and calls = "[]", OF rangeVisitsAll_id _ _ _ _ run])
       (simp_all add: demoManager_def demoUtils_def demoValidation_def)
  with run show ?thesis by blast
qed

subsection \<open>The two iterations of ApplyDeviceNvSpec\<close>

lemma collectParams_err:
  "\<exists>(p, v) \<in> set ps. map_of nb p = None \<Longrightarrow>
   \<exists>p \<in> fst ` set ps. map_of nb p = None \<and>
      collectParams name nb ps acc = Inl (unsupportedParameter p name)"
proof (induction ps arbitrary: acc)
  case Nil
  then show ?case by simp
next
  case (Cons a ps)
  obtain p v where a: "a = (p, v)" by (cases a)
  show ?case
  proof (cases "map_of nb p = None")
    case True
    then show ?thesis unfolding a by (auto simp: lookup_cases)
  next
    case False
    with Cons.prems a have "\<exists>(p, v) \<in> set ps. map_of nb p = None" by auto
    from Cons.IH[OF this] show ?thesis
      using False unfolding a
      by (auto simp: lookup_cases split: option.splits)
  qed
qed

lemma collectParams_same:
  "\<forall>(p, v) \<in> set ps. map_of nb p = Some v \<Longrightarrow> collectParams name nb ps acc = Inr acc"
  by (induction ps arbitrary: acc) (auto simp: lookup_cases)

lemma queryWithAdvancedSettings_enabled:
  assumes "QueryNvConfig (hostUtils h) w pciAddr = (Inr nvConfig, w1)"
    and "AdvancedPCISettingsEnabled (configValidation h) w1 (CurrentConfig nvConfig) = (True, w2)"
  shows "queryWithAdvancedSettings K h pciAddr (w, calls)
           = (Inr nvConfig, (w2, calls @ [CQueryNvConfig pciAddr]))"
  using assms by (simp add: queryWithAdvancedSettings_def logged_def unlogged_def)

lemma ApplyDeviceNvSpec_normal:
  assumes "Ports (Status device) = port0 # ports"
    and "\<not> ResetToDefault device"
    and "queryWithAdvancedSettings K h (PCI port0) s = (Inr nvConfig, s1)"
  shows "ApplyDeviceNvSpec K rng h device s =
           (Return (fst (diffAndWrite rng h device (PCI port0) nvConfig s1)),
            snd (diffAndWrite rng h device (PCI port0) nvConfig s1))"
  using assms by (simp add: ApplyDeviceNvSpec_def sliceIndex_def split: prod.splits)

subsection \<open>Unsupported parameters\<close>

text \<open>\<open>ApplyDeviceNvSpec\<close> looks the desired parameters up in \<open>NextBootConfig\<close>, not in
  \<open>CurrentConfig\<close>: a parameter missing from the current configuration only is written.\<close>

theorem unsupported_parameter_counterexample:
  "AdvancedPCISettingsEnabled
     (configValidation (demoManager [] []
        (demoNv [(''ADVANCED_PCI_SETTINGS'', ''1'')]
                [(''ADVANCED_PCI_SETTINGS'', ''1''), (''P1'', ''0'')])
        [(''P1'', ''1'')] (False, None) 0)) ()
     (CurrentConfig (demoNv [(''ADVANCED_PCI_SETTINGS'', ''1'')]
                [(''ADVANCED_PCI_SETTINGS'', ''1''), (''P1'', ''0'')])) = (True, ()) \<and>
   map_of (CurrentConfig (demoNv [(''ADVANCED_PCI_SETTINGS'', ''1'')]
                [(''ADVANCED_PCI_SETTINGS'', ''1''), (''P1'', ''0'')])) ''P1'' = None \<and>
   ApplyDeviceNvSpec demoConsts id
     (demoManager [] []
        (demoNv [(''ADVANCED_PCI_SETTINGS'', ''1'')]
                [(''ADVANCED_PCI_SETTINGS'', ''1''), (''P1'', ''0'')])
        [(''P1'', ''1'')] (False, None) 0)
     (demoDevice [portA] False) ((), [])
   = (Return (True, None),
      ((), [CQueryNvConfig ''0000:03:00.0'',
            CSetNvConfigParameter ''0000:03:00.0'' ''P1'' ''1'']))"
  by (simp add: ApplyDeviceNvSpec_def sliceIndex_def queryWithAdvancedSettings_def diffAndWrite_def
        logged_def unlogged_def demo_defs lookup_def Let_def)

text \<open>Claim C3, as amended. For a device that does not ask for a reset to default and whose
  current configuration has the advanced PCI settings enabled: when a desired parameter is
  missing from \<open>CurrentConfig\<close>, \<open>ValidateDeviceNvSpec\<close> returns an
  \<open>IncorrectSpecError\<close>; when a desired parameter is missing from \<open>NextBootConfig\<close>,
  \<open>ApplyDeviceNvSpec\<close> returns an \<open>IncorrectSpecError\<close>. In both cases the only host
  call issued is the query of the NV configuration, so no \<open>SetNvConfigParameter\<close>.\<close>

theorem unsupported_parameter_is_spec_error:
  assumes "rangeVisitsAll rng"
    and "Ports (Status device) = port0 # ports"
    and "\<not> ResetToDefault device"
    and "QueryNvConfig (hostUtils h) w (PCI port0) = (Inr nvConfig, w1)"
  shows
    "(ConstructNvParamMapFromTemplate (configValidation h) w1 device (DefaultConfig nvConfig)
         = (Inr desiredV, w2) \<and>
      AdvancedPCISettingsEnabled (configValidation h) w2 (CurrentConfig nvConfig) = (True, w3) \<and>
      (\<exists>(p, v) \<in> set desiredV. map_of (CurrentConfig nvConfig) p = None)
      \<longrightarrow> (\<exists>p \<in> fst ` set desiredV. map_of (CurrentConfig nvConfig) p = None \<and>
             ValidateDeviceNvSpec rng h device (w, calls) =
               (Return (False, False, Some (unsupportedParameter p (Name device))),
                (w3, calls @ [CQueryNvConfig (PCI port0)]))))
     \<and>
     (AdvancedPCISettingsEnabled (configValidation h) w1 (CurrentConfig nvConfig) = (True, u2) \<and>
      ConstructNvParamMapFromTemplate (configValidation h) u2 device (DefaultConfig nvConfig)
         = (Inr desiredA, u3) \<and>
      (\<exists>(p, v) \<in> set desiredA. map_of (NextBootConfig nvConfig) p = None)
      \<longrightarrow> (\<exists>p \<in> fst ` set desiredA. map_of (NextBootConfig nvConfig) p = None \<and>
             ApplyDeviceNvSpec K rng h device (w, calls) =
               (Return (False, Some (unsupportedParameter p (Name device))),
                (u3, calls @ [CQueryNvConfig (PCI port0)]))))"
proof (intro conjI impI)
  assume A: "ConstructNvParamMapFromTemplate (configValidation h) w1 device (DefaultConfig nvConfig)
         = (Inr desiredV, w2) \<and>
      AdvancedPCISettingsEnabled (configValidation h) w2 (CurrentConfig nvConfig) = (True, w3) \<and>
      (\<exists>(p, v) \<in> set desiredV. map_of (CurrentConfig nvConfig) p = None)"
  then have run: "ValidateDeviceNvSpec rng h device (w, calls) =
           (Return (validateLoop True (Name device) nvConfig (rng desiredV) False False),
            (w3, calls @ [CQueryNvConfig (PCI port0)]))"
    using ValidateDeviceNvSpec_normal[OF assms(2-4)] by blast
  from A have "\<exists>(p, v) \<in> set (rng desiredV). map_of (CurrentConfig nvConfig) p = None"
    by (simp add: rangeVisitsAll_set[OF assms(1)])
  from validateLoop_err[OF _ this, of True "Name device" False False]
  show "\<exists>p \<in> fst ` set desiredV. map_of (CurrentConfig nvConfig) p = None \<and>
             ValidateDeviceNvSpec rng h device (w, calls) =
               (Return (False, False, Some (unsupportedParameter p (Name device))),
                (w3, calls @ [CQueryNvConfig (PCI port0)]))"
    unfolding run rangeVisitsAll_set[OF assms(1)] by simp
next
  assume A: "AdvancedPCISettingsEnabled (configValidation h) w1 (CurrentConfig nvConfig) = (True, u2) \<and>
      ConstructNvParamMapFromTemplate (configValidation h) u2 device (DefaultConfig nvConfig)
         = (Inr desiredA, u3) \<and>
      (\<exists>(p, v) \<in> set desiredA. map_of (NextBootConfig nvConfig) p = None)"
  then have q: "queryWithAdvancedSettings K h (PCI port0) (w, calls)
           = (Inr nvConfig, (u2, calls @ [CQueryNvConfig (PCI port0)]))"
    using queryWithAdvancedSettings_enabled[OF assms(4)] by blast
  note run = ApplyDeviceNvSpec_normal[OF assms(2,3) q, of rng]
  from A have "\<exists>(p, v) \<in> set (rng desiredA). map_of (NextBootConfig nvConfig) p = None"
    by (simp add: rangeVisitsAll_set[OF assms(1)])
  from collectParams_err[OF this, of "Name device" "[]"] A
  show "\<exists>p \<in> fst ` set desiredA. map_of (NextBootConfig nvConfig) p = None \<and>
             ApplyDeviceNvSpec K rng h device (w, calls) =
               (Return (False, Some (unsupportedParameter p (Name device))),
                (u3, calls @ [CQueryNvConfig (PCI port0)]))"
    unfolding run rangeVisitsAll_set[OF assms(1)]
    by (auto simp: diffAndWrite_def unlogged_def)
qed

text \<open>The theorem on a parameter that neither configuration knows.\<close>

theorem unsupported_parameter_is_spec_error_witness:
  "ValidateDeviceNvSpec id
     (demoManager [] []
        (demoNv [(''ADVANCED_PCI_SETTINGS'', ''1'')] [(''ADVANCED_PCI_SETTINGS'', ''1'')])
        [(''P1'', ''1'')] (False, None) 0)
     (demoDevice [portA] False) ((), [])
   = (Return (False, False, Some (IncorrectSpecError ''Parameter P1 unsupported for device nic-1'')),
      ((), [CQueryNvConfig ''0000:03:00.0''])) \<and>
   ApplyDeviceNvSpec demoConsts id
     (demoManager [] []
        (demoNv [(''ADVANCED_PCI_SETTINGS'', ''1'')] [(''ADVANCED_PCI_SETTINGS'', ''1'')])
        [(''P1'', ''1'')] (False, None) 0)
     (demoDevice [portA] False) ((), [])
   = (Return (False, Some (IncorrectSpecError ''Parameter P1 unsupported for device nic-1'')),
      ((), [CQueryNvConfig ''0000:03:00.0'']))"
  using unsupported_parameter_is_spec_error[where rng = id
      and device = "demoDevice [portA] False" and ?port0.0 = portA and ports = "[]"
      and h = "demoManager [] []
        (demoNv [(''ADVANCED_PCI_SETTINGS'', ''1'')] [(''ADVANCED_PCI_SETTINGS'', ''1'')])
        [(''P1'', ''1'')] (False, None) 0"
      and nvConfig = "demoNv [(''ADVANCED_PCI_SETTINGS'', ''1'')] [(''ADVANCED_PCI_SETTINGS'', ''1'')]"
      and w = "()" and ?w1.0 = "()" and ?w2.0 = "()" and ?w3.0 = "()" and ?u2.0 = "()"
      and ?u3.0 = "()" and desiredV = "[(''P1'', ''1'')]" and desiredA = "[(''P1'', ''1'')]"
      and calls = "[]" and K = demoConsts]
  by (simp add: rangeVisitsAll_id demoManager_def demoUtils_def demoValidation_def demoNv_def
        portA_def unsupportedParameter_def)

subsection \<open>ApplyDeviceNvSpec: the reboot flag\<close>

text \<open>Claim C4. For a device that does not ask for a reset to default, when
  \<open>ApplyDeviceNvSpec\<close> has its NV configuration and its desired parameters: if the first
  loop accepts every parameter and every write of the second loop succeeds, the function
  returns \<open>(true, nil)\<close>; in particular when every desired parameter already has its
  value in \<open>NextBootConfig\<close>, where nothing is written at all.\<close>

theorem apply_reaching_writes_needs_reboot:
  assumes "rangeVisitsAll rng"
    and "Ports (Status device) = port0 # ports"
    and "\<not> ResetToDefault device"
    and "queryWithAdvancedSettings K h (PCI port0) (w, calls) = (Inr nvConfig, (w1, calls1))"
    and "ConstructNvParamMapFromTemplate (configValidation h) w1 device (DefaultConfig nvConfig)
           = (Inr desiredConfig, w2)"
  shows
    "(collectParams (Name device) (NextBootConfig nvConfig) (rng desiredConfig) []
         = Inr paramsToApply \<and>
      fst (writeParams (hostUtils h) (PCI port0) (rng paramsToApply) (w2, calls1)) = None
      \<longrightarrow> fst (ApplyDeviceNvSpec K rng h device (w, calls)) = Return (True, None))
     \<and>
     ((\<forall>(p, v) \<in> set desiredConfig. map_of (NextBootConfig nvConfig) p = Some v)
      \<longrightarrow> ApplyDeviceNvSpec K rng h device (w, calls) = (Return (True, None), (w2, calls1)))"
proof (intro conjI impI)
  note run = ApplyDeviceNvSpec_normal[OF assms(2-4), of rng]
  {
    assume "collectParams (Name device) (NextBootConfig nvConfig) (rng desiredConfig) []
         = Inr paramsToApply \<and>
      fst (writeParams (hostUtils h) (PCI port0) (rng paramsToApply) (w2, calls1)) = None"
    then show "fst (ApplyDeviceNvSpec K rng h device (w, calls)) = Return (True, None)"
      using assms(5) unfolding run
      by (auto simp: diffAndWrite_def unlogged_def split: prod.splits option.splits)
  next
    assume "\<forall>(p, v) \<in> set desiredConfig. map_of (NextBootConfig nvConfig) p = Some v"
    then have "\<forall>(p, v) \<in> set (rng desiredConfig). map_of (NextBootConfig nvConfig) p = Some v"
      by (simp add: rangeVisitsAll_set[OF assms(1)])
    from collectParams_same[OF this, of "Name device" "[]"]
    show "ApplyDeviceNvSpec K rng h device (w, calls) = (Return (True, None), (w2, calls1))"
      using assms(5) unfolding run
      by (simp add: diffAndWrite_def unlogged_def rangeVisitsAll_empty[OF assms(1)])
  }
qed

text \<open>The theorem on the scenario of a parameter already pending for the next boot, where
  nothing is written, and on a parameter that has to be written.\<close>

theorem apply_reaching_writes_needs_reboot_witness:
  "ApplyDeviceNvSpec demoConsts id
     (demoManager [] []
        (demoNv [(''ADVANCED_PCI_SETTINGS'', ''1''), (''P1'', ''0'')]
                [(''ADVANCED_PCI_SETTINGS'', ''1''), (''P1'', ''1'')])
        [(''P1'', ''1'')] (False, None) 0)
     (demoDevice [portA] False) ((), [])
   = (Return (True, None), ((), [CQueryNvConfig ''0000:03:00.0''])) \<and>
   fst (ApplyDeviceNvSpec demoConsts id
     (demoManager [] []
        (demoNv [(''ADVANCED_PCI_SETTINGS'', ''1''), (''P1'', ''0'')]
                [(''ADVANCED_PCI_SETTINGS'', ''1''), (''P1'', ''0'')])
        [(''P1'', ''1'')] (False, None) 0)
     (demoDevice [portA] False) ((), []))
   = Return (True, None)"
proof -
  let ?pending = "demoNv [(''ADVANCED_PCI_SETTINGS'', ''1''), (''P1'', ''0'')]
                [(''ADVANCED_PCI_SETTINGS'', ''1''), (''P1'', ''1'')]"
  let ?stale = "demoNv [(''ADVANCED_PCI_SETTINGS'', ''1''), (''P1'', ''0'')]
                [(''ADVANCED_PCI_SETTINGS'', ''1''), (''P1'', ''0'')]"
  let ?d = "demoDevice [portA] False"
  have q: "queryWithAdvancedSettings demoConsts (demoManager [] [] nv [(''P1'', ''1'')] (False, None) 0)
             (PCI portA) ((), [])
           = (Inr nv, ((), [CQueryNvConfig ''0000:03:00.0'']))"
    if "map_of (CurrentConfig nv) ''ADVANCED_PCI_SETTINGS'' = Some ''1''" for nv
    using that
    by (simp add: queryWithAdvancedSettings_def logged_def unlogged_def demoManager_def
          demoUtils_def demoValidation_def portA_def)
  have c: "ConstructNvParamMapFromTemplate
             (configValidation (demoManager [] [] nv [(''P1'', ''1'')] (False, None) 0)) () ?d
             (DefaultConfig nv) = (Inr [(''P1'', ''1'')], ())" for nv
    by (simp add: demoManager_def demoValidation_def)
  have a: "ApplyDeviceNvSpec demoConsts id (demoManager [] [] ?pending [(''P1'', ''1'')] (False, None) 0)
             ?d ((), [])
           = (Return (True, None), ((), [CQueryNvConfig ''0000:03:00.0'']))"
    using apply_reaching_writes_needs_reboot[where rng = id and device = ?d and ?port0.0 = portA
        and ports = "[]" and K = demoConsts and w = "()" and calls = "[]" and nvConfig = ?pending
        and ?w1.0 = "()" and ?calls1.0 = "[CQueryNvConfig ''0000:03:00.0'']"
        and h = "demoManager [] [] ?pending [(''P1'', ''1'')] (False, None) 0"
        and desiredConfig = "[(''P1'', ''1'')]" and ?w2.0 = "()",
        OF rangeVisitsAll_id _ _ q c]
    by (simp add: demoNv_def)
  have b: "fst (ApplyDeviceNvSpec demoConsts id (demoManager [] [] ?stale [(''P1'', ''1'')] (False, None) 0)
             ?d ((), []))
           = Return (True, None)"
    using apply_reaching_writes_needs_reboot[where rng = id and device = ?d and ?port0.0 = portA
        and ports = "[]" and K = demoConsts and w = "()" and calls = "[]" and nvConfig = ?stale
        and ?w1.0 = "()" and ?calls1.0 = "[CQueryNvConfig ''0000:03:00.0'']"
        and h = "demoManager [] [] ?stale [(''P1'', ''1'')] (False, None) 0"
        and desiredConfig = "[(''P1'', ''1'')]" and ?w2.0 = "()"
        and paramsToApply = "[(''P1'', ''1'')]",
        OF rangeVisitsAll_id _ _ q c]
    by (simp add: demoNv_def lookup_def logged_def demoManager_def demoUtils_def failure_def)
  from a b show ?thesis by simp
qed

subsection \<open>ApplyDeviceNvSpec: reset to default\<close>

text \<open>Claim C5. For a device that asks for a reset to default, \<open>ApplyDeviceNvSpec\<close>
  calls \<open>ResetNvConfig\<close> once, then \<open>SetNvConfigParameter\<close> once, for the advanced PCI
  settings parameter with the value true, and returns \<open>(true, nil)\<close> when both succeed,
  whatever the state of the host; these are all the host calls it makes. When one of the two
  calls fails, the function returns that error after it, with \<open>false\<close>.\<close>

theorem reset_to_default_path:
  assumes "Ports (Status device) = port0 # ports"
    and "ResetToDefault device"
  shows
    "(ResetNvConfig (hostUtils h) w (PCI port0) = (None, w1) \<and>
      SetNvConfigParameter (hostUtils h) w1 (PCI port0) (AdvancedPCISettingsParam K) (NvParamTrue K)
        = (None, w2) \<longrightarrow>
        ApplyDeviceNvSpec K rng h device (w, calls) =
          (Return (True, None),
           (w2, calls @ [CResetNvConfig (PCI port0),
                         CSetNvConfigParameter (PCI port0) (AdvancedPCISettingsParam K)
                           (NvParamTrue K)])))
     \<and>
     (ResetNvConfig (hostUtils h) w (PCI port0) = (None, w1) \<and>
      SetNvConfigParameter (hostUtils h) w1 (PCI port0) (AdvancedPCISettingsParam K) (NvParamTrue K)
        = (Some e, w2) \<longrightarrow>
        ApplyDeviceNvSpec K rng h device (w, calls) =
          (Return (False, Some e),
           (w2, calls @ [CResetNvConfig (PCI port0),
                         CSetNvConfigParameter (PCI port0) (AdvancedPCISettingsParam K)
                           (NvParamTrue K)])))
     \<and>
     (ResetNvConfig (hostUtils h) w (PCI port0) = (Some e, w1) \<longrightarrow>
        ApplyDeviceNvSpec K rng h device (w, calls) =
          (Return (False, Some e), (w1, calls @ [CResetNvConfig (PCI port0)])))"
  using assms
  by (simp add: ApplyDeviceNvSpec_def sliceIndex_def resetToDefault_def logged_def Let_def)

text \<open>The theorem on a host where both calls succeed, and on one where the reset fails.\<close>

theorem reset_to_default_path_witness:
  "ApplyDeviceNvSpec demoConsts id
     (demoManager [] [] (demoNv [] []) [(''P1'', ''1'')] (False, None) 0)
     (demoDevice [portA] True) ((), [])
   = (Return (True, None),
      ((), [CResetNvConfig ''0000:03:00.0'',
            CSetNvConfigParameter ''0000:03:00.0'' ''ADVANCED_PCI_SETTINGS'' ''1''])) \<and>
   ApplyDeviceNvSpec demoConsts id
     (demoManager [CResetNvConfig ''0000:03:00.0''] [] (demoNv [] []) [(''P1'', ''1'')] (False, None) 0)
     (demoDevice [portA] True) ((), [])
   = (Return (False, Some (HostError ''failed'')), ((), [CResetNvConfig ''0000:03:00.0'']))"
  using reset_to_default_path[where device = "demoDevice [portA] True" and ?port0.0 = portA
      and ports = "[]" and K = demoConsts and rng = id and w = "()" and ?w1.0 = "()"
      and ?w2.0 = "()" and calls = "[]"
      and h = "demoManager [] [] (demoNv [] []) [(''P1'', ''1'')] (False, None) 0"]
    reset_to_default_path[where device = "demoDevice [portA] True" and ?port0.0 = portA
      and ports = "[]" and K = demoConsts and rng = id and w = "()" and ?w1.0 = "()"
      and ?w2.0 = "()" and calls = "[]" and e = "HostError ''failed''"
      and h = "demoManager [CResetNvConfig ''0000:03:00.0''] [] (demoNv [] []) [(''P1'', ''1'')]
                 (False, None) 0"]
  by (simp add: demoManager_def demoUtils_def failure_def portA_def demoConsts_def)

subsection \<open>Panics and failures\<close>


text \<open>The index expressions are in range when there is a port 0: index 1 is read only under
  the test that there are exactly two ports, and without that test it would be out of range
  on a device with one port.\<close>

lemma sliceIndex_second_port: "length ports = 1 \<Longrightarrow> sliceIndex ports 1 = Panic"
  by (simp add: sliceIndex_def)













subsection \<open>The error of RuntimeConfigApplied\<close>

text \<open>Claim C7 says that an error of \<open>RuntimeConfigApplied\<close> is returned by
  \<open>ApplyDeviceRuntimeSpec\<close>. On a device with one port, with \<open>RuntimeConfigApplied\<close>
  answering \<open>(false, err)\<close> and every other call succeeding, the function applies the
  runtime settings and returns \<open>nil\<close>: lines 283 to 285 log the error and do not
  return it.\<close>

theorem runtime_check_error_is_dropped:
  "RuntimeConfigApplied
     (configValidation (demoManager [] [] (demoNv [] []) []
        (False, Some (HostError ''cannot read the runtime configuration'')) 4096)) ()
     (demoDevice [portA] False)
   = ((False, Some (HostError ''cannot read the runtime configuration'')), ()) \<and>
   ApplyDeviceRuntimeSpec
     (demoManager [] [] (demoNv [] []) []
        (False, Some (HostError ''cannot read the runtime configuration'')) 4096)
     (demoDevice [portA] False) ((), [])
   = (Return None,
      ((), [CSetMaxReadRequestSize ''0000:03:00.0'' 4096,
            CSetTrustAndPFC ''enp3s0f0'' ''dscp'' ''0,0,0,1,0,0,0,0'']))"
  by (simp add: ApplyDeviceRuntimeSpec_def setMaxReadRequestSizes_def setTrustAndPFCs_def sliceIndex_def
        logged_def unlogged_def demo_defs)

subsection \<open>ApplyDeviceRuntimeSpec: the max-read-request size\<close>

text \<open>With a desired max-read-request size of zero, \<open>SetMaxReadRequestSize\<close> is not called,
  on port 0 either: line 296 guards both calls.\<close>

theorem max_read_request_size_counterexample:
  "RuntimeConfigApplied
     (configValidation (demoManager [] [] (demoNv [] []) [] (False, None) 0)) ()
     (demoDevice [portA] False) = ((False, None), ()) \<and>
   ApplyDeviceRuntimeSpec (demoManager [] [] (demoNv [] []) [] (False, None) 0)
     (demoDevice [portA] False) ((), [])
   = (Return None, ((), [CSetTrustAndPFC ''enp3s0f0'' ''dscp'' ''0,0,0,1,0,0,0,0'']))"
  by (simp add: ApplyDeviceRuntimeSpec_def setMaxReadRequestSizes_def setTrustAndPFCs_def sliceIndex_def
        logged_def unlogged_def demo_defs)

lemma setTrustAndPFCs_calls:
  "\<exists>new. snd (snd (setTrustAndPFCs hu ports t p (w, calls))) = calls @ new \<and>
         filter isSetMaxReadRequestSize new = []"
  by (cases ports)
     (auto simp: setTrustAndPFCs_def sliceIndex_def logged_def split: prod.splits option.splits)

text \<open>Claim C8, as amended. For every device with at least one port whose runtime
  configuration is not reported as applied, \<open>ApplyDeviceRuntimeSpec\<close> calls
  \<open>SetMaxReadRequestSize\<close> on the PCI address of port 0 exactly when the desired size is
  not zero, and on the PCI address of port 1 exactly when, moreover, the device has exactly
  two ports and the call on port 0 succeeded; it makes no other call of
  \<open>SetMaxReadRequestSize\<close>.\<close>

theorem max_read_request_size_calls:
  assumes "RuntimeConfigApplied (configValidation h) w device = ((False, err), w1)"
    and "CalculateDesiredRuntimeConfig (configValidation h) w1 device
           = ((desiredMaxReadReqSize, desiredTrust, desiredPfc), w2)"
    and "Ports (Status device) = port0 # ports"
  shows "\<exists>new. snd (snd (ApplyDeviceRuntimeSpec h device (w, calls))) = calls @ new \<and>
           filter isSetMaxReadRequestSize new =
             (if desiredMaxReadReqSize = 0 then []
              else CSetMaxReadRequestSize (PCI port0) desiredMaxReadReqSize #
                (if fst (SetMaxReadRequestSize (hostUtils h) w2 (PCI port0) desiredMaxReadReqSize)
                      = None \<and> length ports = 1
                 then [CSetMaxReadRequestSize (PCI (ports ! 0)) desiredMaxReadReqSize]
                 else []))"
proof -
  let ?hu = "hostUtils h"
  let ?n = desiredMaxReadReqSize
  let ?c0 = "CSetMaxReadRequestSize (PCI port0) ?n"
  let ?c1 = "CSetMaxReadRequestSize (PCI (ports ! 0)) ?n"
  have start: "ApplyDeviceRuntimeSpec h device (w, calls) =
      (case setMaxReadRequestSizes ?hu (port0 # ports) ?n (w2, calls) of
         (Panic, s3) \<Rightarrow> (Panic, s3)
       | (Return (Some err), s3) \<Rightarrow> (Return (Some err), s3)
       | (Return None, s3) \<Rightarrow> setTrustAndPFCs ?hu (port0 # ports) desiredTrust desiredPfc s3)"
    using assms by (simp add: ApplyDeviceRuntimeSpec_def unlogged_def Let_def)
  show ?thesis
  proof (cases "?n = 0")
    case True
    with setTrustAndPFCs_calls[of ?hu "port0 # ports" desiredTrust desiredPfc w2 calls]
    show ?thesis by (simp add: start setMaxReadRequestSizes_def sliceIndex_def)
  next
    case nz: False
    obtain r0 w3 where r0: "SetMaxReadRequestSize ?hu w2 (PCI port0) ?n = (r0, w3)"
      by (metis prod.exhaust)
    show ?thesis
    proof (cases r0)
      case (Some e)
      then show ?thesis using nz r0
        by (simp add: start setMaxReadRequestSizes_def sliceIndex_def logged_def)
    next
      case None
      show ?thesis
      proof (cases "length ports = 1")
        case False
        with setTrustAndPFCs_calls[of ?hu "port0 # ports" desiredTrust desiredPfc w3 "calls @ [?c0]"]
        show ?thesis using nz r0 None
          by (auto simp: start setMaxReadRequestSizes_def sliceIndex_def logged_def)
      next
        case True
        obtain r1 w4 where r1: "SetMaxReadRequestSize ?hu w3 (PCI (ports ! 0)) ?n = (r1, w4)"
          by (metis prod.exhaust)
        show ?thesis
        proof (cases r1)
          case (Some e)
          then show ?thesis using nz r0 None True r1
            by (simp add: start setMaxReadRequestSizes_def sliceIndex_def logged_def)
        next
          case n1: None
          with setTrustAndPFCs_calls[of ?hu "port0 # ports" desiredTrust desiredPfc w4
                 "calls @ [?c0, ?c1]"]
          show ?thesis using nz r0 None True r1
            by (auto simp: start setMaxReadRequestSizes_def sliceIndex_def logged_def)
        qed
      qed
    qed
  qed
qed

text \<open>The theorem on a device with two ports and a desired size of 4096.\<close>

theorem max_read_request_size_calls_witness:
  "\<exists>new. snd (snd (ApplyDeviceRuntimeSpec
                      (demoManager [] [] (demoNv [] []) [] (False, None) 4096)
                      (demoDevice [portA, portB] False) ((), []))) = [] @ new \<and>
         filter isSetMaxReadRequestSize new =
           [CSetMaxReadRequestSize ''0000:03:00.0'' 4096,
            CSetMaxReadRequestSize ''0000:03:00.1'' 4096]"
  using max_read_request_size_calls[where device = "demoDevice [portA, portB] False"
      and ?port0.0 = portA and ports = "[portB]" and w = "()" and ?w1.0 = "()" and ?w2.0 = "()"
      and err = None and desiredMaxReadReqSize = 4096 and desiredTrust = "''dscp''"
      and desiredPfc = "''0,0,0,1,0,0,0,0''" and calls = "[]"
      and h = "demoManager [] [] (demoNv [] []) [] (False, None) 4096"]
  by (simp add: demoManager_def demoUtils_def demoValidation_def failure_def portA_def portB_def)

subsection \<open>Runs of the discovery on the concrete host\<close>

lemma ParseInt16_02: "ParseInt16 ''02'' = Some 2"
  by (simp add: ParseInt16_def ParseUint16_def digitValue_def)

lemma ParseInt16_zz: "ParseInt16 ''zz'' = None"
  by (simp add: ParseInt16_def ParseUint16_def digitValue_def)

lemmas discover_defs = DiscoverNicDevices_def discoverDevice_def logged_def demoManager_def
  demoUtils_def failure_def demoConsts_def nicFunction_def oddFunction_def
  ParseInt16_02 ParseInt16_zz Let_def

subsection \<open>DiscoverNicDevices: what stops it\<close>

lemma discoverLoop_append:
  "discoverLoop K h (xs @ ys) devices s =
     (case discoverLoop K h xs devices s of
        (Inl err, s1) \<Rightarrow> (Inl err, s1)
      | (Inr devices1, s1) \<Rightarrow> discoverLoop K h ys devices1 s1)"
  by (induction xs arbitrary: devices s) (auto split: prod.splits sum.splits)

lemma discoverDevice_unparsed:
  "VendorID device = MellanoxVendor K \<Longrightarrow> ParseInt16 (ClassID device) = None \<Longrightarrow>
   discoverDevice K h device devices s = (Inr devices, s)"
  by (simp add: discoverDevice_def)

lemma discoverDevice_other_bus:
  "discoverDevice K (h\<lparr>hostUtils := (hostUtils h)\<lparr>GetPCIDevices := g\<rparr>\<rparr>) device devices s =
   discoverDevice K h device devices s"
  by (simp add: discoverDevice_def
        cong: option.case_cong sum.case_cong prod.case_cong bool.case_cong if_cong)

lemma discoverLoop_other_bus:
  "discoverLoop K (h\<lparr>hostUtils := (hostUtils h)\<lparr>GetPCIDevices := g\<rparr>\<rparr>) pciDevices devices s =
   discoverLoop K h pciDevices devices s"
  by (induction pciDevices arbitrary: devices s)
     (simp_all add: discoverDevice_other_bus cong: sum.case_cong prod.case_cong)

lemma discoverDevice_no_serial:
  assumes "VendorID device = MellanoxVendor K"
    and "ParseInt16 (ClassID device) = Some (NetClass K)"
    and "IsSriovVF (hostUtils h) w (Address device) = (False, w1)"
    and "GetPartAndSerialNumber (hostUtils h) w1 (Address device) = (Inl e, w2)"
  shows "fst (discoverDevice K h device devices (w, calls)) = Inl e"
  using assms by (simp add: discoverDevice_def logged_def)

lemma discoverDevice_no_firmware:
  assumes "VendorID device = MellanoxVendor K"
    and "ParseInt16 (ClassID device) = Some (NetClass K)"
    and "IsSriovVF (hostUtils h) w (Address device) = (False, w1)"
    and "GetPartAndSerialNumber (hostUtils h) w1 (Address device)
           = (Inr (partNumber, serialNumber), w2)"
    and "map_of devices serialNumber = None"
    and "GetFirmwareVersionAndPSID (hostUtils h) w2 (Address device) = (Inl e, w3)"
  shows "fst (discoverDevice K h device devices (w, calls)) = Inl e"
  using assms by (simp add: discoverDevice_def logged_def)

lemma DiscoverNicDevices_abort:
  assumes "GetPCIDevices (hostUtils h) w = (Inr (before @ device # after), w1)"
    and "discoverLoop K h before [] (w1, calls @ [CGetPCIDevices]) = (Inr devices, (w2, calls2))"
    and "fst (discoverDevice K h device devices (w2, calls2)) = Inl e"
  shows "fst (DiscoverNicDevices K h (w, calls)) = Return (None, Some e)"
  using assms
  by (auto simp: DiscoverNicDevices_def logged_def discoverLoop_append
           split: prod.splits sum.splits)

text \<open>Claim C9. Let the bus list a device of the Mellanox vendor. If its class code does not
  parse, the device is skipped: \<open>DiscoverNicDevices\<close> returns what it returns on a bus
  without that device, so the failure to parse is not an error of the call. If the device is
  of the network class and a physical function, and the devices before it were processed
  without error, then a failure of \<open>GetPartAndSerialNumber\<close> for it, or a failure of
  \<open>GetFirmwareVersionAndPSID\<close> for it (called when its serial number is new), makes the
  call return that error and no map.\<close>

theorem discovery_failure_policy:
  assumes "GetPCIDevices (hostUtils h) w = (Inr (before @ device # after), w1)"
    and "VendorID device = MellanoxVendor K"
  shows
    "(ParseInt16 (ClassID device) = None \<longrightarrow>
        DiscoverNicDevices K h (w, calls) =
        DiscoverNicDevices K
          (h\<lparr>hostUtils := (hostUtils h)\<lparr>GetPCIDevices := (\<lambda>_. (Inr (before @ after), w1))\<rparr>\<rparr>)
          (w, calls))
     \<and>
     (discoverLoop K h before [] (w1, calls @ [CGetPCIDevices]) = (Inr devices, (w2, calls2)) \<and>
      ParseInt16 (ClassID device) = Some (NetClass K) \<and>
      IsSriovVF (hostUtils h) w2 (Address device) = (False, w3) \<and>
      GetPartAndSerialNumber (hostUtils h) w3 (Address device) = (Inl e, w4) \<longrightarrow>
        fst (DiscoverNicDevices K h (w, calls)) = Return (None, Some e))
     \<and>
     (discoverLoop K h before [] (w1, calls @ [CGetPCIDevices]) = (Inr devices, (w2, calls2)) \<and>
      ParseInt16 (ClassID device) = Some (NetClass K) \<and>
      IsSriovVF (hostUtils h) w2 (Address device) = (False, w3) \<and>
      GetPartAndSerialNumber (hostUtils h) w3 (Address device)
        = (Inr (partNumber, serialNumber), w4) \<and>
      map_of devices serialNumber = None \<and>
      GetFirmwareVersionAndPSID (hostUtils h) w4 (Address device) = (Inl e, w5) \<longrightarrow>
        fst (DiscoverNicDevices K h (w, calls)) = Return (None, Some e))"
proof (intro conjI impI)
  assume "ParseInt16 (ClassID device) = None"
  then have "discoverLoop K h (before @ device # after) [] s = discoverLoop K h (before @ after) [] s"
    for s
    using assms(2)
    by (simp add: discoverLoop_append discoverDevice_unparsed split: prod.splits sum.splits)
  then show "DiscoverNicDevices K h (w, calls) =
        DiscoverNicDevices K
          (h\<lparr>hostUtils := (hostUtils h)\<lparr>GetPCIDevices := (\<lambda>_. (Inr (before @ after), w1))\<rparr>\<rparr>)
          (w, calls)"
    using assms(1)
    by (simp add: DiscoverNicDevices_def logged_def discoverLoop_other_bus)
next
  assume "discoverLoop K h before [] (w1, calls @ [CGetPCIDevices]) = (Inr devices, (w2, calls2)) \<and>
      ParseInt16 (ClassID device) = Some (NetClass K) \<and>
      IsSriovVF (hostUtils h) w2 (Address device) = (False, w3) \<and>
      GetPartAndSerialNumber (hostUtils h) w3 (Address device) = (Inl e, w4)"
  then have loop: "discoverLoop K h before [] (w1, calls @ [CGetPCIDevices])
                     = (Inr devices, (w2, calls2))"
    and cls: "ParseInt16 (ClassID device) = Some (NetClass K)"
    and vf: "IsSriovVF (hostUtils h) w2 (Address device) = (False, w3)"
    and sn: "GetPartAndSerialNumber (hostUtils h) w3 (Address device) = (Inl e, w4)"
    by simp_all
  from discoverDevice_no_serial[OF assms(2) cls vf sn]
  show "fst (DiscoverNicDevices K h (w, calls)) = Return (None, Some e)"
    by (rule DiscoverNicDevices_abort[OF assms(1) loop])
next
  assume "discoverLoop K h before [] (w1, calls @ [CGetPCIDevices]) = (Inr devices, (w2, calls2)) \<and>
      ParseInt16 (ClassID device) = Some (NetClass K) \<and>
      IsSriovVF (hostUtils h) w2 (Address device) = (False, w3) \<and>
      GetPartAndSerialNumber (hostUtils h) w3 (Address device)
        = (Inr (partNumber, serialNumber), w4) \<and>
      map_of devices serialNumber = None \<and>
      GetFirmwareVersionAndPSID (hostUtils h) w4 (Address device) = (Inl e, w5)"
  then have loop: "discoverLoop K h before [] (w1, calls @ [CGetPCIDevices])
                     = (Inr devices, (w2, calls2))"
    and cls: "ParseInt16 (ClassID device) = Some (NetClass K)"
    and vf: "IsSriovVF (hostUtils h) w2 (Address device) = (False, w3)"
    and sn: "GetPartAndSerialNumber (hostUtils h) w3 (Address device)
               = (Inr (partNumber, serialNumber), w4)"
    and new: "map_of devices serialNumber = None"
    and fw: "GetFirmwareVersionAndPSID (hostUtils h) w4 (Address device) = (Inl e, w5)"
    by simp_all
  from discoverDevice_no_firmware[OF assms(2) cls vf sn new fw]
  show "fst (DiscoverNicDevices K h (w, calls)) = Return (None, Some e)"
    by (rule DiscoverNicDevices_abort[OF assms(1) loop])
qed

text \<open>The theorem on a bus with an unparsable record before a port of a card: the record is
  skipped and the card is reported; when one of the two identity calls fails for the port,
  the call returns the error.\<close>

theorem discovery_failure_policy_witness:
  "fst (DiscoverNicDevices demoConsts
          (demoManager [] [oddFunction, nicFunction ''0000:03:00.0''] (demoNv [] []) []
             (False, None) 0) ((), []))
     = Return (Some [(''MT2116X09299'',
         \<lparr>Node = ''node-1'', Type = ''101d'', SerialNumber = ''MT2116X09299'',
          PartNumber = ''MCX623106AC-CDA'', PSID = ''MT_0000000359'',
          FirmwareVersion = ''22.31.1014'',
          Ports = [\<lparr>PCI = ''0000:03:00.0'', NetworkInterface = ''eth-0000:03:00.0'',
                    RdmaInterface = ''rdma-0000:03:00.0''\<rparr>]\<rparr>)], None) \<and>
   fst (DiscoverNicDevices demoConsts
          (demoManager [CGetPartAndSerialNumber ''0000:03:00.0'']
             [oddFunction, nicFunction ''0000:03:00.0''] (demoNv [] []) [] (False, None) 0)
          ((), []))
     = Return (None, Some (HostError ''failed'')) \<and>
   fst (DiscoverNicDevices demoConsts
          (demoManager [CGetFirmwareVersionAndPSID ''0000:03:00.0'']
             [oddFunction, nicFunction ''0000:03:00.0''] (demoNv [] []) [] (False, None) 0)
          ((), []))
     = Return (None, Some (HostError ''failed''))"
proof -
  let ?bus = "[oddFunction, nicFunction ''0000:03:00.0'']"
  let ?h = "\<lambda>fails. demoManager fails ?bus (demoNv [] []) [] (False, None) 0"
  have bus: "GetPCIDevices (hostUtils (?h fails)) () = (Inr ([] @ oddFunction # [nicFunction ''0000:03:00.0'']), ())"
    for fails
    by (simp add: demoManager_def demoUtils_def)
  have bus2: "GetPCIDevices (hostUtils (?h fails)) () = (Inr ([oddFunction] @ nicFunction ''0000:03:00.0'' # []), ())"
    for fails
    by (simp add: demoManager_def demoUtils_def)
  have odd: "VendorID oddFunction = MellanoxVendor demoConsts"
    and nic: "VendorID (nicFunction ''0000:03:00.0'') = MellanoxVendor demoConsts"
    by (simp_all add: oddFunction_def nicFunction_def demoConsts_def)
  have a: "fst (DiscoverNicDevices demoConsts (?h []) ((), []))
     = Return (Some [(''MT2116X09299'',
         \<lparr>Node = ''node-1'', Type = ''101d'', SerialNumber = ''MT2116X09299'',
          PartNumber = ''MCX623106AC-CDA'', PSID = ''MT_0000000359'',
          FirmwareVersion = ''22.31.1014'',
          Ports = [\<lparr>PCI = ''0000:03:00.0'', NetworkInterface = ''eth-0000:03:00.0'',
                    RdmaInterface = ''rdma-0000:03:00.0''\<rparr>]\<rparr>)], None)"
    using discovery_failure_policy[OF bus odd, where calls = "[]" and fails1 = "[]"]
    by (simp add: discover_defs)
  have b: "fst (DiscoverNicDevices demoConsts (?h [CGetPartAndSerialNumber ''0000:03:00.0'']) ((), []))
     = Return (None, Some (HostError ''failed''))"
    using discovery_failure_policy[OF bus2 nic, where calls = "[]"
        and fails1 = "[CGetPartAndSerialNumber ''0000:03:00.0'']"
        and devices = "[]" and ?w2.0 = "()" and ?calls2.0 = "[CGetPCIDevices]"
        and ?w3.0 = "()" and ?w4.0 = "()" and e = "HostError ''failed''"]
    by (simp add: discover_defs)
  have c: "fst (DiscoverNicDevices demoConsts (?h [CGetFirmwareVersionAndPSID ''0000:03:00.0'']) ((), []))
     = Return (None, Some (HostError ''failed''))"
    using discovery_failure_policy[OF bus2 nic, where calls = "[]"
        and fails1 = "[CGetFirmwareVersionAndPSID ''0000:03:00.0'']"
        and devices = "[]" and ?w2.0 = "()" and ?calls2.0 = "[CGetPCIDevices]"
        and ?w3.0 = "()" and ?w4.0 = "()" and ?w5.0 = "()" and e = "HostError ''failed''"
        and partNumber = "''MCX623106AC-CDA''" and serialNumber = "''MT2116X09299''"]
    by (simp add: discover_defs)
  from a b c show ?thesis by simp
qed

subsection \<open>DiscoverNicDevices: the entries of the map\<close>

lemma update_entry:
  "distinct (map fst al) \<Longrightarrow> (k', v') \<in> set (AList.update k v al) \<Longrightarrow>
   (k', v') = (k, v) \<or> ((k', v') \<in> set al \<and> k' \<noteq> k)"
  by (induction al) (auto split: if_splits simp: rev_image_eqI)

lemma update_entries:
  assumes "distinct (map fst al)"
    and "\<forall>(k, d) \<in> set al. SerialNumber d = k \<and> Node d = n \<and> Ports d \<noteq> []"
    and "SerialNumber v = k" and "Node v = n" and "Ports v \<noteq> []"
  shows "distinct (map fst (AList.update k v al)) \<and>
         (\<forall>(k, d) \<in> set (AList.update k v al). SerialNumber d = k \<and> Node d = n \<and> Ports d \<noteq> [])"
proof (intro conjI ballI)
  show "distinct (map fst (AList.update k v al))"
    using assms(1) by (rule distinct_update)
next
  fix x assume x: "x \<in> set (AList.update k v al)"
  obtain k' d where kd: "x = (k', d)" by (cases x)
  from update_entry[OF assms(1) x[unfolded kd]]
  show "case x of (k, d) \<Rightarrow> SerialNumber d = k \<and> Node d = n \<and> Ports d \<noteq> []"
    using assms(2-5) unfolding kd by auto
qed

text \<open>What one pass of the loop body does to the map and to the log, when it does not
  return: nothing to the map and no \<open>GetInterfaceName\<close>; or one more port for a serial
  number already there; or a new entry with one port.\<close>

lemma interfaceQueries_append:
  "interfaceQueries (xs @ ys) = interfaceQueries xs @ interfaceQueries ys"
  by (induction xs rule: interfaceQueries.induct) simp_all

lemma discoverDevice_step:
  assumes run: "discoverDevice K h device devices (w, calls) = (Inr devices1, (w1, calls1))"
  shows "(devices1 = devices \<and> (\<exists>new. calls1 = calls @ new \<and> interfaceQueries new = [])) \<or>
         (\<exists>sn ds port new. map_of devices sn = Some ds \<and> PCI port = Address device \<and>
            calls1 = calls @ new \<and> interfaceQueries new = [Address device] \<and>
            devices1 = AList.update (SerialNumber ds)
                         (ds\<lparr>Ports := Ports ds @ [port], Node := nodeName h\<rparr>) devices) \<or>
         (\<exists>sn ty pn ps fw port new. map_of devices sn = None \<and> PCI port = Address device \<and>
            calls1 = calls @ new \<and> interfaceQueries new = [Address device] \<and>
            devices1 = AList.update sn
               \<lparr>Node = nodeName h, Type = ty, SerialNumber = sn, PartNumber = pn, PSID = ps,
                FirmwareVersion = fw, Ports = [port]\<rparr> devices)"
    (is "?skip \<or> ?known \<or> ?fresh")
proof (cases "VendorID device = MellanoxVendor K \<and> ParseInt16 (ClassID device) = Some (NetClass K)")
  case False
  with run have "devices1 = devices \<and> calls1 = calls"
    by (auto simp: discoverDevice_def split: option.splits if_splits)
  then have ?skip by simp
  then show ?thesis ..
next
  case kept: True
  let ?a = "Address device"
  obtain vf w2 where vf: "IsSriovVF (hostUtils h) w ?a = (vf, w2)"
    by (metis prod.exhaust)
  show ?thesis
  proof (cases vf)
    case True
    with run kept vf have "devices1 = devices \<and> calls1 = calls @ [CIsSriovVF ?a]"
      by (simp add: discoverDevice_def logged_def)
    then have ?skip by simp
    then show ?thesis ..
  next
    case pf: False
    obtain r w3 where r: "GetPartAndSerialNumber (hostUtils h) w2 ?a = (r, w3)"
      by (metis prod.exhaust)
    show ?thesis
    proof (cases r)
      case (Inl e)
      with run kept vf pf r show ?thesis
        by (simp add: discoverDevice_def logged_def)
    next
      case (Inr pnsn)
      obtain pn sn where pnsn: "pnsn = (pn, sn)" by (cases pnsn)
      note r' = r[unfolded Inr pnsn]
      let ?c3 = "calls @ [CIsSriovVF ?a, CGetPartAndSerialNumber ?a]"
      show ?thesis
      proof (cases "map_of devices sn")
        case (Some ds)
        obtain ni w4 where ni: "GetInterfaceName (hostUtils h) w3 ?a = (ni, w4)"
          by (metis prod.exhaust)
        obtain rd w5 where rd: "GetRDMADeviceName (hostUtils h) w4 ?a = (rd, w5)"
          by (metis prod.exhaust)
        let ?port = "\<lparr>PCI = ?a, NetworkInterface = ni, RdmaInterface = rd\<rparr>"
        let ?new = "[CIsSriovVF ?a, CGetPartAndSerialNumber ?a, CGetInterfaceName ?a,
                     CGetRDMADeviceName ?a]"
        from run kept vf pf r' Some ni rd
        have "devices1 = AList.update (SerialNumber ds)
                (ds\<lparr>Ports := Ports ds @ [?port], Node := nodeName h\<rparr>) devices
              \<and> calls1 = calls @ ?new"
          by (simp add: discoverDevice_def logged_def Let_def)
        with Some have "map_of devices sn = Some ds \<and> PCI ?port = ?a \<and>
            calls1 = calls @ ?new \<and> interfaceQueries ?new = [?a] \<and>
            devices1 = AList.update (SerialNumber ds)
                         (ds\<lparr>Ports := Ports ds @ [?port], Node := nodeName h\<rparr>) devices"
          by simp
        then have ?known by blast
        then show ?thesis by blast
      next
        case None
        obtain f w4 where f: "GetFirmwareVersionAndPSID (hostUtils h) w3 ?a = (f, w4)"
          by (metis prod.exhaust)
        show ?thesis
        proof (cases f)
          case (Inl e)
          with run kept vf pf r' None f show ?thesis
            by (simp add: discoverDevice_def logged_def)
        next
          case (Inr fwps)
          obtain fw ps where fwps: "fwps = (fw, ps)" by (cases fwps)
          note f' = f[unfolded Inr fwps]
          obtain ni w5 where ni: "GetInterfaceName (hostUtils h) w4 ?a = (ni, w5)"
            by (metis prod.exhaust)
          obtain rd w6 where rd: "GetRDMADeviceName (hostUtils h) w5 ?a = (rd, w6)"
            by (metis prod.exhaust)
          let ?port = "\<lparr>PCI = ?a, NetworkInterface = ni, RdmaInterface = rd\<rparr>"
          let ?new = "[CIsSriovVF ?a, CGetPartAndSerialNumber ?a,
                       CGetFirmwareVersionAndPSID ?a, CGetInterfaceName ?a,
                       CGetRDMADeviceName ?a]"
          from run kept vf pf r' None f' ni rd
          have "devices1 = AList.update sn
                  \<lparr>Node = nodeName h, Type = ProductID device, SerialNumber = sn,
                   PartNumber = pn, PSID = ps, FirmwareVersion = fw, Ports = [?port]\<rparr> devices
                \<and> calls1 = calls @ ?new"
            by (simp add: discoverDevice_def logged_def Let_def)
          with None have "map_of devices sn = None \<and> PCI ?port = ?a \<and>
              calls1 = calls @ ?new \<and> interfaceQueries ?new = [?a] \<and>
              devices1 = AList.update sn
                  \<lparr>Node = nodeName h, Type = ProductID device, SerialNumber = sn,
                   PartNumber = pn, PSID = ps, FirmwareVersion = fw, Ports = [?port]\<rparr> devices"
            by simp
          then have ?fresh by blast
          then show ?thesis by blast
        qed
      qed
    qed
  qed
qed

lemma portAddresses_update_new:
  "map_of al k = None \<Longrightarrow>
   mset (portAddresses (AList.update k v al)) = mset (portAddresses al) + mset (map PCI (Ports v))"
  by (induction al) (auto simp: portAddresses_def split: if_splits)

lemma portAddresses_update_known:
  "map_of al k = Some d \<Longrightarrow>
   mset (portAddresses (AList.update k v al)) + mset (map PCI (Ports d))
     = mset (portAddresses al) + mset (map PCI (Ports v))"
  by (induction al) (auto simp: portAddresses_def split: if_splits)

lemma discoverDevice_ports:
  assumes step: "discoverDevice K h device devices (w, calls) = (Inr devices1, (w1, calls1))"
    and dist: "distinct (map fst devices)"
    and ok: "\<forall>(k, d) \<in> set devices.
               SerialNumber d = k \<and> Node d = nodeName h \<and> Ports d \<noteq> []"
  shows "distinct (map fst devices1) \<and>
         (\<forall>(k, d) \<in> set devices1.
             SerialNumber d = k \<and> Node d = nodeName h \<and> Ports d \<noteq> []) \<and>
         (\<exists>new. calls1 = calls @ new \<and>
            mset (portAddresses devices1)
              = mset (portAddresses devices) + mset (interfaceQueries new))"
proof -
  from discoverDevice_step[OF step]
  consider (skip) new where "devices1 = devices" "calls1 = calls @ new" "interfaceQueries new = []"
    | (known) sn ds port new where "map_of devices sn = Some ds" "PCI port = Address device"
        "calls1 = calls @ new" "interfaceQueries new = [Address device]"
        "devices1 = AList.update (SerialNumber ds)
                      (ds\<lparr>Ports := Ports ds @ [port], Node := nodeName h\<rparr>) devices"
    | (fresh) sn ty pn ps fw port new where "map_of devices sn = None"
        "PCI port = Address device"
        "calls1 = calls @ new" "interfaceQueries new = [Address device]"
        "devices1 = AList.update sn
               \<lparr>Node = nodeName h, Type = ty, SerialNumber = sn, PartNumber = pn, PSID = ps,
                FirmwareVersion = fw, Ports = [port]\<rparr> devices"
    by blast
  then show ?thesis
  proof cases
    case skip
    with dist ok show ?thesis by simp
  next
    case known
    from ok map_of_SomeD[OF known(1)] have sn: "SerialNumber ds = sn" by auto
    have entries: "distinct (map fst devices1) \<and>
         (\<forall>(k, d) \<in> set devices1.
             SerialNumber d = k \<and> Node d = nodeName h \<and> Ports d \<noteq> [])"
      unfolding known(5) by (rule update_entries[OF dist ok]) simp_all
    from portAddresses_update_known[OF known(1), of
        "ds\<lparr>Ports := Ports ds @ [port], Node := nodeName h\<rparr>"]
    have "mset (portAddresses devices1)
            = mset (portAddresses devices) + mset (interfaceQueries new)"
      unfolding known(5) sn known(4) using known(2) by simp
    with entries known(3) show ?thesis by blast
  next
    case fresh
    have entries: "distinct (map fst devices1) \<and>
         (\<forall>(k, d) \<in> set devices1.
             SerialNumber d = k \<and> Node d = nodeName h \<and> Ports d \<noteq> [])"
      unfolding fresh(5) by (rule update_entries[OF dist ok]) simp_all
    from portAddresses_update_new[OF fresh(1), of
        "\<lparr>Node = nodeName h, Type = ty, SerialNumber = sn, PartNumber = pn, PSID = ps,
                FirmwareVersion = fw, Ports = [port]\<rparr>"]
    have "mset (portAddresses devices1)
            = mset (portAddresses devices) + mset (interfaceQueries new)"
      unfolding fresh(5) fresh(4) using fresh(2) by simp
    with entries fresh(3) show ?thesis by blast
  qed
qed

lemma discoverLoop_ports:
  assumes "discoverLoop K h pciDevices devices (w, calls) = (Inr devices1, (w1, calls1))"
    and "distinct (map fst devices)"
    and "\<forall>(k, d) \<in> set devices. SerialNumber d = k \<and> Node d = nodeName h \<and> Ports d \<noteq> []"
  shows "distinct (map fst devices1) \<and>
         (\<forall>(k, d) \<in> set devices1.
             SerialNumber d = k \<and> Node d = nodeName h \<and> Ports d \<noteq> []) \<and>
         (\<exists>new. calls1 = calls @ new \<and>
            mset (portAddresses devices1)
              = mset (portAddresses devices) + mset (interfaceQueries new))"
  using assms
proof (induction pciDevices arbitrary: devices w calls)
  case Nil
  then show ?case by simp
next
  case (Cons device rest)
  obtain r w2 calls2 where step: "discoverDevice K h device devices (w, calls) = (r, (w2, calls2))"
    by (metis prod.exhaust)
  show ?case
  proof (cases r)
    case (Inl e)
    with Cons.prems(1) step show ?thesis by simp
  next
    case (Inr devices2)
    with Cons.prems(1) step
    have rest: "discoverLoop K h rest devices2 (w2, calls2) = (Inr devices1, (w1, calls1))"
      by simp
    from discoverDevice_ports[OF step[unfolded Inr] Cons.prems(2,3)]
    obtain new2 where d2: "distinct (map fst devices2)"
      and ok2: "\<forall>(k, d) \<in> set devices2.
                  SerialNumber d = k \<and> Node d = nodeName h \<and> Ports d \<noteq> []"
      and c2: "calls2 = calls @ new2"
      and p2: "mset (portAddresses devices2)
                 = mset (portAddresses devices) + mset (interfaceQueries new2)"
      by blast
    from Cons.IH[OF rest d2 ok2]
    obtain new1 where d1: "distinct (map fst devices1)"
      and ok1: "\<forall>(k, d) \<in> set devices1.
                  SerialNumber d = k \<and> Node d = nodeName h \<and> Ports d \<noteq> []"
      and c1: "calls1 = calls2 @ new1"
      and p1: "mset (portAddresses devices1)
                 = mset (portAddresses devices2) + mset (interfaceQueries new1)"
      by blast
    have "calls1 = calls @ (new2 @ new1)" using c1 c2 by simp
    moreover have "mset (portAddresses devices1)
        = mset (portAddresses devices) + mset (interfaceQueries (new2 @ new1))"
      using p1 p2 by (simp add: interfaceQueries_append)
    ultimately show ?thesis using d1 ok1 by blast
  qed
qed

text \<open>Claim C10. When \<open>DiscoverNicDevices\<close> returns a map, its keys are distinct and every
  entry has its key as \<open>SerialNumber\<close>, the node name of the manager as \<open>Node\<close>, and a
  list of ports that is not empty. The ports of all the entries are, one for one, the PCI
  devices the loop kept (those for which it called \<open>GetInterfaceName\<close>).\<close>

theorem discovered_entries:
  assumes "DiscoverNicDevices K h (w, calls) = (Return (Some devices, None), (w1, calls1))"
  shows "distinct (map fst devices) \<and>
         (\<forall>(k, d) \<in> set devices.
             SerialNumber d = k \<and> Node d = nodeName h \<and> Ports d \<noteq> []) \<and>
         (\<exists>new. calls1 = calls @ new \<and>
            mset (portAddresses devices) = mset (interfaceQueries new))"
proof -
  obtain r w2 where bus: "GetPCIDevices (hostUtils h) w = (r, w2)"
    by (metis prod.exhaust)
  show ?thesis
  proof (cases r)
    case (Inl e)
    with assms bus show ?thesis by (simp add: DiscoverNicDevices_def logged_def)
  next
    case (Inr pciDevices)
    obtain r2 w3 calls3 where loop:
      "discoverLoop K h pciDevices [] (w2, calls @ [CGetPCIDevices]) = (r2, (w3, calls3))"
      by (metis prod.exhaust)
    from assms bus Inr loop have "r2 = Inr devices \<and> w3 = w1 \<and> calls3 = calls1"
      by (cases r2) (simp_all add: DiscoverNicDevices_def logged_def)
    with loop have "discoverLoop K h pciDevices [] (w2, calls @ [CGetPCIDevices])
                      = (Inr devices, (w1, calls1))" by simp
    from discoverLoop_ports[OF this]
    obtain new where "distinct (map fst devices)"
      and "\<forall>(k, d) \<in> set devices.
             SerialNumber d = k \<and> Node d = nodeName h \<and> Ports d \<noteq> []"
      and "calls1 = calls @ (CGetPCIDevices # new)"
      and "mset (portAddresses devices) = mset (interfaceQueries (CGetPCIDevices # new))"
      by (auto simp: portAddresses_def)
    then show ?thesis by blast
  qed
qed

text \<open>The theorem on a card with two ports: one entry, with both ports.\<close>

theorem discovered_entries_witness:
  "DiscoverNicDevices demoConsts
      (demoManager [] [nicFunction ''0000:03:00.0'', nicFunction ''0000:03:00.1'']
         (demoNv [] []) [] (False, None) 0) ((), [])
     = (Return (Some [(''MT2116X09299'',
         \<lparr>Node = ''node-1'', Type = ''101d'', SerialNumber = ''MT2116X09299'',
          PartNumber = ''MCX623106AC-CDA'', PSID = ''MT_0000000359'',
          FirmwareVersion = ''22.31.1014'',
          Ports = [\<lparr>PCI = ''0000:03:00.0'', NetworkInterface = ''eth-0000:03:00.0'',
                    RdmaInterface = ''rdma-0000:03:00.0''\<rparr>,
                   \<lparr>PCI = ''0000:03:00.1'', NetworkInterface = ''eth-0000:03:00.1'',
                    RdmaInterface = ''rdma-0000:03:00.1''\<rparr>]\<rparr>)], None),
        ((), [CGetPCIDevices,
              CIsSriovVF ''0000:03:00.0'', CGetPartAndSerialNumber ''0000:03:00.0'',
              CGetFirmwareVersionAndPSID ''0000:03:00.0'', CGetInterfaceName ''0000:03:00.0'',
              CGetRDMADeviceName ''0000:03:00.0'',
              CIsSriovVF ''0000:03:00.1'', CGetPartAndSerialNumber ''0000:03:00.1'',
              CGetInterfaceName ''0000:03:00.1'', CGetRDMADeviceName ''0000:03:00.1''])) \<and>
   nodeName (demoManager [] [nicFunction ''0000:03:00.0'', nicFunction ''0000:03:00.1'']
               (demoNv [] []) [] (False, None) 0) = ''node-1''"
proof -
  let ?h = "demoManager [] [nicFunction ''0000:03:00.0'', nicFunction ''0000:03:00.1'']
              (demoNv [] []) [] (False, None) 0"
  have run: "DiscoverNicDevices demoConsts ?h ((), [])
     = (Return (Some [(''MT2116X09299'',
         \<lparr>Node = ''node-1'', Type = ''101d'', SerialNumber = ''MT2116X09299'',
          PartNumber = ''MCX623106AC-CDA'', PSID = ''MT_0000000359'',
          FirmwareVersion = ''22.31.1014'',
          Ports = [\<lparr>PCI = ''0000:03:00.0'', NetworkInterface = ''eth-0000:03:00.0'',
                    RdmaInterface = ''rdma-0000:03:00.0''\<rparr>,
                   \<lparr>PCI = ''0000:03:00.1'', NetworkInterface = ''eth-0000:03:00.1'',
                    RdmaInterface = ''rdma-0000:03:00.1''\<rparr>]\<rparr>)], None),
        ((), [CGetPCIDevices,
              CIsSriovVF ''0000:03:00.0'', CGetPartAndSerialNumber ''0000:03:00.0'',
              CGetFirmwareVersionAndPSID ''0000:03:00.0'', CGetInterfaceName ''0000:03:00.0'',
              CGetRDMADeviceName ''0000:03:00.0'',
              CIsSriovVF ''0000:03:00.1'', CGetPartAndSerialNumber ''0000:03:00.1'',
              CGetInterfaceName ''0000:03:00.1'', CGetRDMADeviceName ''0000:03:00.1'']))"
    by (simp add: discover_defs)
  from discovered_entries[OF run] have "nodeName ?h = ''node-1''"
    by simp
  with run show ?thesis by simp
qed

end
